theory Spec2Isabelle
  imports Complex_Main
begin

section \<open>JavaScript values used by the proxy\<close>

text \<open>
  Strings are \<^typ>\<open>string\<close>: a character stands for one code unit. Every literal the
  source compares against is ASCII, and \<open>startsWith\<close>, \<open>slice\<close>, \<open>includes\<close> and
  \<open>split\<close> with ASCII arguments cut a string at the same places whether it is read as
  UTF-16 code units or as bytes.
\<close>

text \<open>\<open>s.startsWith(p)\<close>\<close>

definition startsWith :: "string \<Rightarrow> string \<Rightarrow> bool" where
  "startsWith s p = (take (length p) s = p)"

text \<open>\<open>s.slice(n)\<close> for \<open>0 \<le> n\<close>\<close>

definition slice :: "string \<Rightarrow> nat \<Rightarrow> string" where
  "slice s n = drop n s"

text \<open>\<open>s.includes(sub)\<close>: \<open>sub\<close> occurs in \<open>s\<close> as a contiguous substring.\<close>

fun includesStr :: "string \<Rightarrow> string \<Rightarrow> bool" where
  "includesStr [] sub = (sub = [])"
| "includesStr (c # cs) sub = (startsWith (c # cs) sub \<or> includesStr cs sub)"

text \<open>
  \<open>s.split(sep)\<close> for a one-character separator: the pieces between the separators,
  empty pieces included, so that the empty string splits into one empty piece.
\<close>

fun splitStr :: "char \<Rightarrow> string \<Rightarrow> string list" where
  "splitStr sep [] = [[]]"
| "splitStr sep (c # cs) =
     (if c = sep then [] # splitStr sep cs
      else (case splitStr sep cs of
              [] \<Rightarrow> [[c]]
            | p # ps \<Rightarrow> (c # p) # ps))"

text \<open>\<open>parts.join(sep)\<close>\<close>

fun join :: "string \<Rightarrow> string list \<Rightarrow> string" where
  "join sep [] = []"
| "join sep [p] = p"
| "join sep (p # q # ps) = p @ sep @ join sep (q # ps)"

text \<open>
  A value decoded from JSON. An object is the list of its properties, each key once; a
  property is looked up with \<^const>\<open>map_of\<close>. JavaScript's \<open>undefined\<close> is
  \<^const>\<open>None\<close> of \<open>json option\<close>.
\<close>

datatype json =
    JNull
  | JBool bool
  | JNum rat
  | JStr string
  | JArr "json list"
  | JObj "(string \<times> json) list"

text \<open>Truthiness, as \<open>||\<close>, \<open>&&\<close> and \<open>if\<close> test it.\<close>

fun truthy :: "json option \<Rightarrow> bool" where
  "truthy None = False"
| "truthy (Some JNull) = False"
| "truthy (Some (JBool b)) = b"
| "truthy (Some (JNum n)) = (n \<noteq> 0)"
| "truthy (Some (JStr s)) = (s \<noteq> [])"
| "truthy (Some (JArr xs)) = True"
| "truthy (Some (JObj kvs)) = True"

text \<open>
  \<open>v.key\<close> on a value that is neither \<open>null\<close> nor \<open>undefined\<close>, for a key that no
  prototype defines (\<open>error\<close>, \<open>message\<close>, \<open>model_info\<close>, \<open>parameters\<close>, ...): the
  object's own property, \<open>undefined\<close> on everything else.
\<close>

fun getProp :: "json \<Rightarrow> string \<Rightarrow> json option" where
  "getProp (JObj kvs) k = map_of kvs k"
| "getProp v k = None"

text \<open>\<open>a || b\<close> on an environment variable and a default.\<close>

fun orElse :: "string option \<Rightarrow> string \<Rightarrow> string" where
  "orElse None d = d"
| "orElse (Some s) d = (if s = [] then d else s)"

section \<open>Provider registry (\<open>src/providers/provider-registry.ts\<close>)\<close>

record provider_capabilities =
  supportsTools :: bool
  supportsVision :: bool
  supportsStreaming :: bool
  supportsJsonMode :: bool

record local_provider =
  name :: string
  baseUrl :: string
  apiPath :: string
  envVar :: string
  apiKeyEnvVar :: string
  prefixes :: "string list"
  capabilities :: provider_capabilities

record resolved_provider =
  rp_provider :: local_provider
  rp_modelName :: string

record url_parsed_model =
  up_baseUrl :: string
  up_modelName :: string

text \<open>\<open>process.env\<close>: a variable is unset (\<^const>\<open>None\<close>) or holds a string.\<close>

type_synonym process_env = "string \<Rightarrow> string option"

text \<open>The four built-in provider configurations, in the order of \<open>getProviders\<close>.\<close>

definition ollamaProvider :: "process_env \<Rightarrow> local_provider" where
  "ollamaProvider env =
     \<lparr> name = ''ollama'',
       baseUrl = orElse (env ''OLLAMA_HOST'')
                   (orElse (env ''OLLAMA_BASE_URL'') ''http://localhost:11434''),
       apiPath = ''/v1/chat/completions'',
       envVar = ''OLLAMA_BASE_URL'',
       apiKeyEnvVar = ''OLLAMA_API_KEY'',
       prefixes = [''ollama/'', ''ollama:''],
       capabilities = \<lparr> supportsTools = True, supportsVision = False,
                        supportsStreaming = True, supportsJsonMode = True \<rparr> \<rparr>"

definition lmstudioProvider :: "process_env \<Rightarrow> local_provider" where
  "lmstudioProvider env =
     \<lparr> name = ''lmstudio'',
       baseUrl = orElse (env ''LMSTUDIO_BASE_URL'') ''http://localhost:1234'',
       apiPath = ''/v1/chat/completions'',
       envVar = ''LMSTUDIO_BASE_URL'',
       apiKeyEnvVar = ''LMSTUDIO_API_KEY'',
       prefixes = [''lmstudio/'', ''lmstudio:'', ''mlstudio/'', ''mlstudio:''],
       capabilities = \<lparr> supportsTools = True, supportsVision = False,
                        supportsStreaming = True, supportsJsonMode = True \<rparr> \<rparr>"

definition vllmProvider :: "process_env \<Rightarrow> local_provider" where
  "vllmProvider env =
     \<lparr> name = ''vllm'',
       baseUrl = orElse (env ''VLLM_BASE_URL'') ''http://localhost:8000'',
       apiPath = ''/v1/chat/completions'',
       envVar = ''VLLM_BASE_URL'',
       apiKeyEnvVar = ''VLLM_API_KEY'',
       prefixes = [''vllm/'', ''vllm:''],
       capabilities = \<lparr> supportsTools = True, supportsVision = False,
                        supportsStreaming = True, supportsJsonMode = True \<rparr> \<rparr>"

text \<open>
  The source on \<open>mlx\<close>: the server's tool parsing is fragile, native tools are disabled
  and tool calls are extracted from text instead.
\<close>

definition mlxProvider :: "process_env \<Rightarrow> local_provider" where
  "mlxProvider env =
     \<lparr> name = ''mlx'',
       baseUrl = orElse (env ''MLX_BASE_URL'') ''http://127.0.0.1:8080'',
       apiPath = ''/v1/chat/completions'',
       envVar = ''MLX_BASE_URL'',
       apiKeyEnvVar = ''MLX_API_KEY'',
       prefixes = [''mlx/'', ''mlx:''],
       capabilities = \<lparr> supportsTools = False, supportsVision = False,
                        supportsStreaming = True, supportsJsonMode = True \<rparr> \<rparr>"

definition getProviders :: "process_env \<Rightarrow> local_provider list" where
  "getProviders env =
     [ollamaProvider env, lmstudioProvider env, vllmProvider env, mlxProvider env]"

text \<open>
  \<open>resolveProvider\<close>: the two nested \<open>for\<close> loops, the inner one over the prefixes of
  one provider, the outer one over the providers. The first prefix that the model id
  starts with decides.
\<close>

fun resolvePrefixes :: "string \<Rightarrow> local_provider \<Rightarrow> string list \<Rightarrow> resolved_provider option" where
  "resolvePrefixes modelId p [] = None"
| "resolvePrefixes modelId p (pre # pres) =
     (if startsWith modelId pre
      then Some \<lparr> rp_provider = p, rp_modelName = slice modelId (length pre) \<rparr>
      else resolvePrefixes modelId p pres)"

fun resolveProviders :: "string \<Rightarrow> local_provider list \<Rightarrow> resolved_provider option" where
  "resolveProviders modelId [] = None"
| "resolveProviders modelId (p # ps) =
     (case resolvePrefixes modelId p (prefixes p) of
        Some r \<Rightarrow> Some r
      | None \<Rightarrow> resolveProviders modelId ps)"

definition resolveProvider :: "process_env \<Rightarrow> string \<Rightarrow> resolved_provider option" where
  "resolveProvider env modelId = resolveProviders modelId (getProviders env)"

text \<open>
  \<open>parseUrlModel\<close>. \<open>new URL(modelId)\<close> is the platform's URL parser and a parameter
  here: it throws (\<^const>\<open>None\<close>) or yields the URL's \<open>protocol\<close> (with its colon),
  \<open>host\<close> and \<open>pathname\<close>.
\<close>

record url =
  protocol :: string
  host :: string
  pathname :: string

type_synonym url_parser = "string \<Rightarrow> url option"

text \<open>\<open>url.pathname.split("/").filter(Boolean)\<close>: the non-empty segments of the path.\<close>

definition pathParts :: "url \<Rightarrow> string list" where
  "pathParts u = filter (\<lambda>seg. seg \<noteq> []) (splitStr CHR ''/'' (pathname u))"

definition parseUrlModel :: "url_parser \<Rightarrow> string \<Rightarrow> url_parsed_model option" where
  "parseUrlModel newURL modelId =
     (if \<not> startsWith modelId ''http://'' \<and> \<not> startsWith modelId ''https://'' then None
      else (case newURL modelId of
              None \<Rightarrow> None
            | Some u \<Rightarrow>
                (let parts = pathParts u in
                 if length parts = 0 then None
                 else
                   (let modelName' = last parts;
                        pfx = (if length parts > 1 then join ''/'' (butlast parts) else []);
                        basePath = (if pfx \<noteq> [] then ''/'' @ pfx else [])
                    in Some \<lparr> up_baseUrl = protocol u @ ''//'' @ host u @ basePath,
                               up_modelName = modelName' \<rparr>))))"

section \<open>Local provider handler (\<open>LocalProviderHandler\<close>)\<close>

subsection \<open>Numbers, requests and responses\<close>

text \<open>
  The context window is a number that \<open>parseInt\<close> returned: an integer, \<open>NaN\<close>, or
  an infinity (from a run of digits too long for a finite number). Token counts and
  ports are integers.
\<close>

datatype jsnum = NaN | Num int | PosInfinity | NegInfinity

record local_provider_handler =
  provider :: local_provider
  modelName :: string
  port :: nat
  healthChecked :: bool
  isHealthy :: bool
  contextWindow :: jsnum
  sessionInputTokens :: int
  sessionOutputTokens :: int

text \<open>The constructor: the field initialisers of the class.\<close>

definition LocalProviderHandler :: "local_provider \<Rightarrow> string \<Rightarrow> nat \<Rightarrow> local_provider_handler" where
  "LocalProviderHandler prov model portNo =
     \<lparr> provider = prov, modelName = model, port = portNo,
       healthChecked = False, isHealthy = False,
       contextWindow = Num 8192,
       sessionInputTokens = 0, sessionOutputTokens = 0 \<rparr>"

text \<open>
  The request in the client's format, as \<open>transformOpenAIToClaude\<close> returns it: the
  fields that \<open>handle\<close> reads, each of them any JSON value, or \<open>undefined\<close>
  (\<^const>\<open>None\<close>).
\<close>

record claude_request =
  cr_max_tokens :: "json option"
  cr_temperature :: "json option"
  cr_stream :: "json option"
  cr_tool_choice :: "json option"
  cr_tools :: "json option"

text \<open>
  The outbound \<open>tool_choice\<close>: the object \<open>{type: "function", function: {name}}\<close>
  with the \<open>name\<close> it was given, or the bare string.
\<close>

datatype openai_tool_choice =
    ToolChoiceFunction json
  | ToolChoiceString string

text \<open>
  \<open>openAIPayload\<close>. A field that is \<open>undefined\<close> (\<^const>\<open>None\<close>) is left out of the
  serialised body. \<open>op_stream_options\<close> holds the value of \<open>include_usage\<close>.
\<close>

record openai_payload =
  op_model :: string
  op_messages :: "json list"
  op_temperature :: json
  op_stream :: bool
  op_max_tokens :: "json option"
  op_tools :: "json list option"
  op_stream_options :: "bool option"
  op_tool_choice :: "openai_tool_choice option"

text \<open>
  What a \<open>fetch\<close> can throw, with \<open>error.code\<close> and \<open>error.cause?.code\<close>, and what
  \<open>JSON.parse\<close>, a call of a non-function and the constructor of a response throw.
\<close>

datatype js_error =
    FetchFailed "string option" "string option"
  | SyntaxError
  | TypeError
  | RangeError

datatype fetch_result =
    Threw js_error
  | Response nat string

text \<open>\<open>response.ok\<close>\<close>

definition ok :: "nat \<Rightarrow> bool" where
  "ok status = (200 \<le> status \<and> status \<le> 299)"

datatype http_request =
    GET string
  | POST_show string string
  | POST_chat string openai_payload

text \<open>
  The network answers a request depending on the requests made so far. Every \<open>fetch\<close>
  is appended to the log of requests, whether it returns or throws.
\<close>

type_synonym network = "http_request list \<Rightarrow> http_request \<Rightarrow> fetch_result"

text \<open>The response of \<open>c.json({error: {type, message}}, status)\<close>.\<close>

record anchor_error =
  err_status :: nat
  err_type :: string
  err_message :: json

text \<open>
  How \<open>handle\<close> ends: with an error body, with the streaming handler over the backend's
  response (and the \<open>X-Dropped-Params\<close> header, if set), with the backend's JSON passed
  through, or by throwing.
\<close>

datatype handle_result =
    ErrorJson anchor_error
  | Streamed "string option" nat string
  | PassJson "string option" json
  | Throws js_error

text \<open>
  Functions that \<open>handle\<close> imports from other modules, and platform functions, as
  parameters: the request transformation of \<open>transform.js\<close>, the conversions of
  \<open>shared/openai-compat.js\<close>, the adapter's \<open>prepareRequest\<close> hook (it may rewrite
  the payload before it is sent), \<open>JSON.parse\<close> (\<^const>\<open>None\<close> when it throws) and
  \<open>parseInt(v, 10)\<close>. The middleware's \<open>beforeRequest\<close> hook and the streaming
  handler are not modelled beyond the point where \<open>handle\<close> calls them.
\<close>

record deps =
  transformOpenAIToClaude :: "json \<Rightarrow> claude_request \<times> string list"
  convertMessagesToOpenAI :: "claude_request \<Rightarrow> string \<Rightarrow> json list"
  convertToolsToOpenAI :: "claude_request \<Rightarrow> json list"
  prepareRequest :: "openai_payload \<Rightarrow> claude_request \<Rightarrow> openai_payload"
  JSON_parse :: "string \<Rightarrow> json option"
  parseInt :: "json \<Rightarrow> jsnum"

subsection \<open>Error responses\<close>

text \<open>
  \<open>c.json(body, status)\<close> builds a response with a body. The constructor of a response
  throws a \<open>RangeError\<close> for a status outside 200 to 599, and a \<open>TypeError\<close> for a
  body with one of the statuses that allow none.
\<close>

definition responseStatusError :: "nat \<Rightarrow> js_error option" where
  "responseStatusError status =
     (if status < 200 \<or> 599 < status then Some RangeError
      else if status = 204 \<or> status = 205 \<or> status = 304 then Some TypeError
      else None)"

text \<open>\<open>errorResponse\<close>: the response, or the error that \<open>c.json\<close> throws.\<close>

definition errorResponse :: "string \<Rightarrow> json \<Rightarrow> nat \<Rightarrow> js_error + anchor_error" where
  "errorResponse ty msg status =
     (case responseStatusError status of
        Some err \<Rightarrow> Inl err
      | None \<Rightarrow> Inr \<lparr> err_status = status, err_type = ty, err_message = msg \<rparr>)"

text \<open>The default of \<open>errorResponse\<close>'s \<open>status\<close> parameter.\<close>

definition defaultStatus :: nat where
  "defaultStatus = 503"

definition getConnectionErrorMessage :: "local_provider_handler \<Rightarrow> string" where
  "getConnectionErrorMessage h =
     (if name (provider h) = ''ollama'' then
        ''Cannot connect to Ollama at '' @ baseUrl (provider h)
          @ ''. Make sure Ollama is running with: ollama serve''
      else if name (provider h) = ''lmstudio'' then
        ''Cannot connect to LM Studio at '' @ baseUrl (provider h)
          @ ''. Make sure LM Studio server is running.''
      else if name (provider h) = ''vllm'' then
        ''Cannot connect to vLLM at '' @ baseUrl (provider h)
          @ ''. Make sure vLLM server is running.''
      else
        ''Cannot connect to '' @ name (provider h) @ '' at '' @ baseUrl (provider h)
          @ ''. Make sure the server is running.'')"

definition getModelPullHint :: "local_provider_handler \<Rightarrow> string" where
  "getModelPullHint h =
     (if name (provider h) = ''ollama'' then ''Pull it with: ollama pull '' @ modelName h
      else ''Make sure the model is available on the server.'')"

text \<open>
  \<open>parsed.error?.message || parsed.error || errorBody\<close>. Reading \<open>parsed.error\<close> throws
  when \<open>parsed\<close> is \<open>null\<close>.
\<close>

definition errorMsg :: "json \<Rightarrow> string \<Rightarrow> js_error + json" where
  "errorMsg parsed errorBody =
     (if parsed = JNull then Inl TypeError
      else
        (let e = getProp parsed ''error'';
             m = (case e of None \<Rightarrow> None | Some JNull \<Rightarrow> None | Some v \<Rightarrow> getProp v ''message'')
         in if truthy m then Inr (the m)
            else if truthy e then Inr (the e)
            else Inr (JStr errorBody)))"

text \<open>
  \<open>errorMsg.includes(x)\<close>: substring search on a string, membership on an array.
  Any other value has no callable \<open>includes\<close>, and the call throws a \<open>TypeError\<close>.
\<close>

fun hasIncludes :: "json \<Rightarrow> bool" where
  "hasIncludes (JStr s) = True"
| "hasIncludes (JArr vs) = True"
| "hasIncludes v = False"

fun includesJ :: "json \<Rightarrow> string \<Rightarrow> bool" where
  "includesJ (JStr s) x = includesStr s x"
| "includesJ (JArr vs) x = (JStr x \<in> set vs)"
| "includesJ v x = False"

text \<open>
  The \<open>try\<close> block of \<open>handleErrorResponse\<close>: the response it returns, or the error
  thrown in it, by \<open>JSON.parse\<close>, by reading \<open>parsed.error\<close> of \<open>null\<close>, by calling
  \<open>includes\<close> on a value that has none, or by \<open>errorResponse\<close>.
\<close>

definition classifyError ::
  "(string \<Rightarrow> json option) \<Rightarrow> local_provider_handler \<Rightarrow> nat \<Rightarrow> string
     \<Rightarrow> js_error + anchor_error" where
  "classifyError parse h status errorBody =
     (case parse errorBody of
        None \<Rightarrow> Inl SyntaxError
      | Some parsed \<Rightarrow>
          (case errorMsg parsed errorBody of
             Inl err \<Rightarrow> Inl err
           | Inr msg \<Rightarrow>
               if \<not> hasIncludes msg then Inl TypeError
               else if includesJ msg ''model''
                       \<and> (includesJ msg ''not found'' \<or> includesJ msg ''does not exist'') then
                 errorResponse ''model_not_found''
                   (JStr (''Model '' @ [CHR 0x27] @ modelName h @ [CHR 0x27]
                          @ '' not found. '' @ getModelPullHint h))
                   defaultStatus
               else if includesJ msg ''does not support tools''
                       \<or> includesJ msg ''tool'' \<and> includesJ msg ''not supported'' then
                 errorResponse ''capability_error''
                   (JStr (''Model '' @ [CHR 0x27] @ modelName h @ [CHR 0x27]
                          @ '' does not support tool/function calling. Claude Code requires tool support for most operations. Try a model that supports tools (e.g., llama3.2, mistral, qwen2.5).''))
                   400
               else errorResponse ''api_error'' msg status))"

text \<open>
  \<open>handleErrorResponse\<close>: the \<open>try\<close> block, and the \<open>catch\<close> branch for whatever it
  throws. An error that \<open>errorResponse\<close> throws in the \<open>catch\<close> branch leaves the
  function.
\<close>

definition handleErrorResponse ::
  "(string \<Rightarrow> json option) \<Rightarrow> local_provider_handler \<Rightarrow> nat \<Rightarrow> string
     \<Rightarrow> js_error + anchor_error" where
  "handleErrorResponse parse h status errorBody =
     (case classifyError parse h status errorBody of
        Inr response \<Rightarrow> Inr response
      | Inl err \<Rightarrow> errorResponse ''api_error'' (JStr errorBody) status)"

subsection \<open>Health check and context window\<close>

text \<open>
  \<open>checkHealth\<close>: the result, the handler and the log afterwards. The second probe is
  inside the \<open>catch\<close> of the first: it is made when the first \<open>fetch\<close> throws.
\<close>

definition checkHealth ::
  "network \<Rightarrow> local_provider_handler \<Rightarrow> http_request list
     \<Rightarrow> bool \<times> local_provider_handler \<times> http_request list" where
  "checkHealth net h reqs =
     (if healthChecked h then (isHealthy h, h, reqs)
      else
        (let healthy = h\<lparr> isHealthy := True, healthChecked := True \<rparr>;
             unhealthy = h\<lparr> healthChecked := True, isHealthy := False \<rparr>;
             healthUrl = GET (baseUrl (provider h) @ ''/api/tags'');
             reqs1 = reqs @ [healthUrl]
         in case net reqs healthUrl of
              Response status body \<Rightarrow>
                if ok status then (True, healthy, reqs1) else (False, unhealthy, reqs1)
            | Threw e \<Rightarrow>
                (let modelsUrl = GET (baseUrl (provider h) @ ''/v1/models'');
                     reqs2 = reqs1 @ [modelsUrl]
                 in case net reqs1 modelsUrl of
                      Response status body \<Rightarrow>
                        if ok status then (True, healthy, reqs2) else (False, unhealthy, reqs2)
                    | Threw e2 \<Rightarrow> (False, unhealthy, reqs2))))"

text \<open>The regular expression's \<open>\s\<close> and \<open>\d\<close> on code units below 256.\<close>

definition isSpace :: "char \<Rightarrow> bool" where
  "isSpace c = (c = CHR 0x09 \<or> c = CHR 0x0A \<or> c = CHR 0x0B \<or> c = CHR 0x0C \<or> c = CHR 0x0D
                \<or> c = CHR 0x20 \<or> c = CHR 0xA0)"

definition isDigit :: "char \<Rightarrow> bool" where
  "isDigit c = (48 \<le> (of_char c :: nat) \<and> (of_char c :: nat) \<le> 57)"

text \<open>
  \<open>/num_ctx\s+(\d+)/\<close> anchored at the start of \<open>s\<close>: the captured digits. After the
  whole run of white space the next character must be a digit, since a shorter run
  would be followed by white space.
\<close>

definition matchNumCtxHere :: "string \<Rightarrow> string option" where
  "matchNumCtxHere s =
     (if startsWith s ''num_ctx'' then
        (let rest = slice s 7;
             digits = takeWhile isDigit (dropWhile isSpace rest)
         in if takeWhile isSpace rest \<noteq> [] \<and> digits \<noteq> [] then Some digits else None)
      else None)"

text \<open>\<open>s.match(/num_ctx\s+(\d+)/)?.[1]\<close>: the capture of the leftmost match.\<close>

fun matchNumCtx :: "string \<Rightarrow> string option" where
  "matchNumCtx [] = None"
| "matchNumCtx (c # cs) =
     (case matchNumCtxHere (c # cs) of
        Some digits \<Rightarrow> Some digits
      | None \<Rightarrow> matchNumCtx cs)"

text \<open>
  \<open>data.model_info?.["general.context_length"]\<close> for a \<open>data\<close> that is not \<open>null\<close>.
\<close>

definition ctxFromInfo :: "json \<Rightarrow> json option" where
  "ctxFromInfo data =
     (case getProp data ''model_info'' of
        None \<Rightarrow> None
      | Some JNull \<Rightarrow> None
      | Some info \<Rightarrow> getProp info ''general.context_length'')"

text \<open>
  \<open>data.parameters?.match(/num_ctx\s+(\d+)/)?.[1]\<close> for a \<open>data\<close> that is not
  \<open>null\<close>. Only a string has a \<open>match\<close> method: on any other value that is neither
  \<open>undefined\<close> nor \<open>null\<close> the call throws.
\<close>

definition ctxFromParams :: "json \<Rightarrow> js_error + string option" where
  "ctxFromParams data =
     (case getProp data ''parameters'' of
        None \<Rightarrow> Inr None
      | Some JNull \<Rightarrow> Inr None
      | Some (JStr params) \<Rightarrow> Inr (matchNumCtx params)
      | Some v \<Rightarrow> Inl TypeError)"

text \<open>
  The body of \<open>if (response.ok) { ... }\<close> in \<open>fetchContextWindow\<close>: the new context
  window, or the error thrown. \<open>response.json()\<close> throws on a body that is not JSON,
  and \<open>data.model_info\<close> throws on \<open>null\<close>. Both values are read before either is
  tested.
\<close>

definition contextFromShow ::
  "(string \<Rightarrow> json option) \<Rightarrow> (json \<Rightarrow> jsnum) \<Rightarrow> string \<Rightarrow> js_error + jsnum" where
  "contextFromShow parse parseInt10 body =
     (case parse body of
        None \<Rightarrow> Inl SyntaxError
      | Some data \<Rightarrow>
          if data = JNull then Inl TypeError
          else
            (case ctxFromParams data of
               Inl err \<Rightarrow> Inl err
             | Inr fromParams \<Rightarrow>
                 if truthy (ctxFromInfo data) then Inr (parseInt10 (the (ctxFromInfo data)))
                 else (case fromParams of
                         Some digits \<Rightarrow> Inr (parseInt10 (JStr digits))
                       | None \<Rightarrow> Inr (Num 8192))))"

definition fetchContextWindow ::
  "(string \<Rightarrow> json option) \<Rightarrow> (json \<Rightarrow> jsnum) \<Rightarrow> network \<Rightarrow> local_provider_handler
     \<Rightarrow> http_request list \<Rightarrow> local_provider_handler \<times> http_request list" where
  "fetchContextWindow parse parseInt10 net h reqs =
     (if name (provider h) \<noteq> ''ollama'' then (h, reqs)
      else
        (let req = POST_show (baseUrl (provider h) @ ''/api/show'') (modelName h);
             reqs1 = reqs @ [req]
         in case net reqs req of
              Threw e \<Rightarrow> (h, reqs1)
            | Response status body \<Rightarrow>
                if ok status then
                  (case contextFromShow parse parseInt10 body of
                     Inl err \<Rightarrow> (h, reqs1)
                   | Inr ctx \<Rightarrow> (h\<lparr> contextWindow := ctx \<rparr>, reqs1))
                else (h, reqs1)))"

subsection \<open>Token status file\<close>

text \<open>The decimal digits of a number, as a template string prints a port.\<close>

fun decimal :: "nat \<Rightarrow> string" where
  "decimal n =
     (if n < 10 then [''0123456789'' ! n]
      else decimal (n div 10) @ [''0123456789'' ! (n mod 10)])"

declare decimal.simps [simp del]

text \<open>
  \<open>Math.round\<close> of a finite number: the nearest integer, halves upwards.
\<close>

definition Math_round :: "rat \<Rightarrow> int" where
  "Math_round x = \<lfloor>x + 1 / 2\<rfloor>"

text \<open>
  The local \<open>leftPct\<close> of \<open>writeTokenFile\<close>. The subtraction, the division and the
  multiplication are those of double-precision numbers: each yields the exact result
  rounded to a double, and the rounding \<open>fl\<close> is a parameter. \<open>NaN > 0\<close> and
  \<open>-Infinity > 0\<close> are false. For \<open>Infinity\<close> the quotient of two infinities is
  \<open>NaN\<close>, which \<open>Math.round\<close>, \<open>Math.min\<close> and \<open>Math.max\<close> hand on.
\<close>

definition leftPct :: "(rat \<Rightarrow> rat) \<Rightarrow> jsnum \<Rightarrow> int \<Rightarrow> jsnum" where
  "leftPct fl ctx tot =
     (case ctx of
        NaN \<Rightarrow> Num 100
      | NegInfinity \<Rightarrow> Num 100
      | PosInfinity \<Rightarrow> NaN
      | Num w \<Rightarrow>
          if w > 0
          then Num (max 0 (min 100
                 (Math_round (fl (fl (fl (of_int w - of_int tot) / of_int w) * 100)))))
          else Num 100)"

text \<open>
  \<open>JSON.stringify\<close> of a number: \<open>NaN\<close> and the infinities are written as \<open>null\<close>.
\<close>

fun jsonOfNum :: "jsnum \<Rightarrow> json" where
  "jsonOfNum (Num n) = JNum (of_int n)"
| "jsonOfNum v = JNull"

text \<open>The call of \<open>writeFileSync\<close>: the directory, the file name and the object written.\<close>

record file_write =
  fw_dir :: string
  fw_name :: string
  fw_data :: json

text \<open>
  \<open>writeTokenFile\<close>, with the rounding of doubles, \<open>tmpdir()\<close> and \<open>Date.now()\<close> as
  parameters: the handler afterwards and the write made. An error of the write itself
  is ignored by the source.
\<close>

definition writeTokenFile ::
  "(rat \<Rightarrow> rat) \<Rightarrow> string \<Rightarrow> int \<Rightarrow> local_provider_handler \<Rightarrow> int \<Rightarrow> int
     \<Rightarrow> local_provider_handler \<times> file_write" where
  "writeTokenFile fl tmpdir now h input output =
     (let h1 = h\<lparr> sessionInputTokens := sessionInputTokens h + input \<rparr>;
          h2 = h1\<lparr> sessionOutputTokens := sessionOutputTokens h1 + output \<rparr>;
          tot = sessionInputTokens h2 + sessionOutputTokens h2;
          data = JObj
            [ (''input_tokens'', JNum (of_int (sessionInputTokens h2))),
              (''output_tokens'', JNum (of_int (sessionOutputTokens h2))),
              (''total_tokens'', JNum (of_int tot)),
              (''total_cost'', JNum 0),
              (''context_window'', jsonOfNum (contextWindow h2)),
              (''context_left_percent'', jsonOfNum (leftPct fl (contextWindow h2) tot)),
              (''updated_at'', JNum (of_int now)) ]
      in (h2, \<lparr> fw_dir = tmpdir,
                fw_name = ''claudish-tokens-'' @ decimal (port h2) @ ''.json'',
                fw_data = data \<rparr>))"

subsection \<open>\<open>handle\<close>\<close>

text \<open>The capability check: \<open>finalTools\<close>.\<close>

definition finalTools :: "local_provider \<Rightarrow> json list \<Rightarrow> json list" where
  "finalTools prov tools = (if supportsTools (capabilities prov) then tools else [])"

text \<open>\<open>claudeRequest.temperature ?? 1\<close>\<close>

fun orOne :: "json option \<Rightarrow> json" where
  "orOne None = JNum 1"
| "orOne (Some JNull) = JNum 1"
| "orOne (Some v) = v"

text \<open>
  \<open>const { type, name } = claudeRequest.tool_choice\<close> for a truthy \<open>tool_choice\<close>: a
  property of an object, and \<open>undefined\<close> for a string, a number, a boolean or an
  array.
\<close>

definition choiceType :: "json \<Rightarrow> json option" where
  "choiceType choice = getProp choice ''type''"

definition choiceName :: "json \<Rightarrow> json option" where
  "choiceName choice = getProp choice ''name''"

text \<open>
  \<open>openAIPayload\<close> as \<open>handle\<close> builds it, the tool choice included, before the
  adapter's hook sees it.
\<close>

definition openAIPayload ::
  "local_provider \<Rightarrow> string \<Rightarrow> json list \<Rightarrow> json list \<Rightarrow> claude_request \<Rightarrow> openai_payload" where
  "openAIPayload prov target messages tools claudeRequest =
     (let payload =
            \<lparr> op_model = target,
              op_messages = messages,
              op_temperature = orOne (cr_temperature claudeRequest),
              op_stream = supportsStreaming (capabilities prov),
              op_max_tokens = cr_max_tokens claudeRequest,
              op_tools = (if length (finalTools prov tools) > 0
                          then Some (finalTools prov tools) else None),
              op_stream_options = (if supportsStreaming (capabilities prov)
                                   then Some True else None),
              op_tool_choice = None \<rparr>
      in if truthy (cr_tool_choice claudeRequest) \<and> length (finalTools prov tools) > 0 then
           (if choiceType (the (cr_tool_choice claudeRequest)) = Some (JStr ''tool'')
               \<and> truthy (choiceName (the (cr_tool_choice claudeRequest)))
            then payload\<lparr> op_tool_choice :=
                   Some (ToolChoiceFunction (the (choiceName (the (cr_tool_choice claudeRequest))))) \<rparr>
            else if choiceType (the (cr_tool_choice claudeRequest)) = Some (JStr ''auto'') then
              payload\<lparr> op_tool_choice := Some (ToolChoiceString ''auto'') \<rparr>
            else if choiceType (the (cr_tool_choice claudeRequest)) = Some (JStr ''none'') then
              payload\<lparr> op_tool_choice := Some (ToolChoiceString ''none'') \<rparr>
            else payload)
         else payload)"

text \<open>\<open>error.code === "ECONNREFUSED" || error.cause?.code === "ECONNREFUSED"\<close>\<close>

fun isConnectionRefused :: "js_error \<Rightarrow> bool" where
  "isConnectionRefused (FetchFailed code causeCode) =
     (code = Some ''ECONNREFUSED'' \<or> causeCode = Some ''ECONNREFUSED'')"
| "isConnectionRefused err = False"

text \<open>
  How a call of \<open>errorResponse\<close> or \<open>handleErrorResponse\<close> ends \<open>handle\<close>: with the
  response, or with the error thrown.
\<close>

fun respond :: "js_error + anchor_error \<Rightarrow> handle_result" where
  "respond (Inr response) = ErrorJson response"
| "respond (Inl err) = Throws err"

text \<open>
  The \<open>catch\<close> block of \<open>handle\<close>: a refused connection is answered with a
  \<open>connection_error\<close>, any other error is thrown again.
\<close>

definition catchBlock :: "local_provider_handler \<Rightarrow> js_error \<Rightarrow> handle_result" where
  "catchBlock h err =
     (if isConnectionRefused err
      then respond (errorResponse ''connection_error''
                      (JStr (getConnectionErrorMessage h)) defaultStatus)
      else Throws err)"

text \<open>
  The second part of \<open>handle\<close>, from the request transformation to the response: the
  payload is built, passed through the adapter's hook and posted to
  \<open>baseUrl + apiPath\<close>. Whatever the \<open>try\<close> block throws, the \<open>fetch\<close>,
  \<open>handleErrorResponse\<close> or \<open>response.json()\<close>, goes to the \<open>catch\<close> block.
\<close>

definition forward ::
  "deps \<Rightarrow> network \<Rightarrow> local_provider_handler \<Rightarrow> http_request list \<Rightarrow> json
     \<Rightarrow> handle_result \<times> local_provider_handler \<times> http_request list" where
  "forward d net h reqs payload =
     (let target = modelName h;
          claudeRequest = fst (transformOpenAIToClaude d payload);
          droppedParams = snd (transformOpenAIToClaude d payload);
          messages = convertMessagesToOpenAI d claudeRequest target;
          tools = convertToolsToOpenAI d claudeRequest;
          sent = prepareRequest d
                   (openAIPayload (provider h) target messages tools claudeRequest) claudeRequest;
          req = POST_chat (baseUrl (provider h) @ apiPath (provider h)) sent;
          reqs1 = reqs @ [req];
          header = (if length droppedParams > 0 then Some (join '', '' droppedParams) else None)
      in case net reqs req of
           Threw err \<Rightarrow> (catchBlock h err, h, reqs1)
         | Response status body \<Rightarrow>
             if \<not> ok status then
               (case handleErrorResponse (JSON_parse d) h status body of
                  Inr response \<Rightarrow> (ErrorJson response, h, reqs1)
                | Inl err \<Rightarrow> (catchBlock h err, h, reqs1))
             else if op_stream sent then (Streamed header status body, h, reqs1)
             else (case JSON_parse d body of
                     None \<Rightarrow> (catchBlock h SyntaxError, h, reqs1)
                   | Some data \<Rightarrow> (PassJson header data, h, reqs1)))"

text \<open>
  \<open>handle\<close>: the health check on the first request, then the request itself. The result,
  the handler afterwards and the log of requests afterwards.
\<close>

definition handle ::
  "deps \<Rightarrow> network \<Rightarrow> local_provider_handler \<Rightarrow> http_request list \<Rightarrow> json
     \<Rightarrow> handle_result \<times> local_provider_handler \<times> http_request list" where
  "handle d net h reqs payload =
     (if \<not> healthChecked h then
        (case checkHealth net h reqs of
           (healthy, h1, reqs1) \<Rightarrow>
             if \<not> healthy
             then (respond (errorResponse ''connection_error''
                              (JStr (getConnectionErrorMessage h1)) defaultStatus), h1, reqs1)
             else (case fetchContextWindow (JSON_parse d) (parseInt d) net h1 reqs1 of
                     (h2, reqs2) \<Rightarrow> forward d net h2 reqs2 payload))
      else forward d net h reqs payload)"

text \<open>
  The locals \<open>claudeRequest\<close> and \<open>openAIPayload\<close> of \<open>handle\<close> as functions of the
  handler and the request received: the request in the client's format, and the payload
  built from it that is handed to the adapter's hook.
\<close>

definition claudeRequestOf :: "deps \<Rightarrow> json \<Rightarrow> claude_request" where
  "claudeRequestOf d payload = fst (transformOpenAIToClaude d payload)"

definition builtPayload :: "deps \<Rightarrow> local_provider_handler \<Rightarrow> json \<Rightarrow> openai_payload" where
  "builtPayload d h payload =
     openAIPayload (provider h) (modelName h)
       (convertMessagesToOpenAI d (claudeRequestOf d payload) (modelName h))
       (convertToolsToOpenAI d (claudeRequestOf d payload))
       (claudeRequestOf d payload)"

text \<open>
  The payload after the adapter's hook: the body of the chat request that \<open>handle\<close>
  sends.
\<close>

definition sentPayload :: "deps \<Rightarrow> local_provider_handler \<Rightarrow> json \<Rightarrow> openai_payload" where
  "sentPayload d h payload =
     prepareRequest d (builtPayload d h payload) (claudeRequestOf d payload)"

text \<open>The requests that a call has added to the log.\<close>

definition issued :: "http_request list \<Rightarrow> http_request list \<Rightarrow> http_request list" where
  "issued before after = drop (length before) after"

text \<open>
  For worked examples: dependencies whose request transformation yields the request
  \<open>cr\<close> and drops no parameter, whose conversions yield no messages and the tools
  \<open>ts\<close>, whose adapter leaves the payload as it is, with the JSON decoder \<open>parse\<close> and
  the integer parser \<open>pInt\<close>.
\<close>

definition exampleDeps ::
  "claude_request \<Rightarrow> json list \<Rightarrow> (string \<Rightarrow> json option) \<Rightarrow> (json \<Rightarrow> jsnum) \<Rightarrow> deps" where
  "exampleDeps cr ts parse pInt =
     \<lparr> transformOpenAIToClaude = (\<lambda>payload. (cr, [])),
       convertMessagesToOpenAI = (\<lambda>claudeRequest target. []),
       convertToolsToOpenAI = (\<lambda>claudeRequest. ts),
       prepareRequest = (\<lambda>payload claudeRequest. payload),
       JSON_parse = parse,
       parseInt = pInt \<rparr>"

section \<open>Port selection (\<open>findAvailablePort\<close>)\<close>

text \<open>
  What binding a server to a port on \<open>127.0.0.1\<close> yields: the \<open>listening\<close> event, or
  an \<open>error\<close> event with its code. The system's answer may differ from one attempt to
  the next, so it depends on the number of attempts made before.
\<close>

datatype listen_result = Listening | ListenError string

type_synonym port_system = "nat \<Rightarrow> int \<Rightarrow> listen_result"

definition isPortAvailable :: "port_system \<Rightarrow> nat \<Rightarrow> int \<Rightarrow> bool" where
  "isPortAvailable sys k p =
     (case sys k p of
        Listening \<Rightarrow> True
      | ListenError code \<Rightarrow> code \<noteq> ''EADDRINUSE'')"

text \<open>The sequential search: \<open>for (let port = startPort; port <= endPort; port++)\<close>.\<close>

function sequentialSearch :: "port_system \<Rightarrow> nat \<Rightarrow> int \<Rightarrow> int \<Rightarrow> int option" where
  "sequentialSearch sys k p endPort =
     (if p \<le> endPort then
        (if isPortAvailable sys k p then Some p
         else sequentialSearch sys (k + 1) (p + 1) endPort)
      else None)"
  by pat_completeness auto
termination
  by (relation "measure (\<lambda>(sys, k, p, endPort). nat (endPort + 1 - p))") auto

declare sequentialSearch.simps [simp del]

datatype port_error = NoAvailablePorts int int

text \<open>
  \<open>findAvailablePort\<close>, with the value of \<open>Math.random()\<close> as a parameter. The result is
  the port, or the error thrown.
\<close>

definition findAvailablePort :: "rat \<Rightarrow> port_system \<Rightarrow> int \<Rightarrow> int \<Rightarrow> port_error + int" where
  "findAvailablePort random sys startPort endPort =
     (let randomPort = \<lfloor>random * of_int (endPort - startPort + 1)\<rfloor> + startPort
      in if isPortAvailable sys 0 randomPort then Inr randomPort
         else (case sequentialSearch sys 1 startPort endPort of
                 Some p \<Rightarrow> Inr p
               | None \<Rightarrow> Inl (NoAvailablePorts startPort endPort)))"

section \<open>Properties\<close>

subsection \<open>Strings\<close>

lemma startsWith_iff: "startsWith s p \<longleftrightarrow> (\<exists>r. s = p @ r)"
  unfolding startsWith_def
  by (metis append_eq_conv_conj append_take_drop_id)

lemma join_nonempty: "ps \<noteq> [] \<Longrightarrow> \<forall>p \<in> set ps. p \<noteq> [] \<Longrightarrow> join sep ps \<noteq> []"
  by (induction sep ps rule: join.induct) auto

lemma slash_join: "ps \<noteq> [] \<Longrightarrow> ''/'' @ join ''/'' ps = concat (map (\<lambda>seg. ''/'' @ seg) ps)"
  by (induction "''/''" ps rule: join.induct) auto

subsection \<open>Provider registry\<close>

lemmas provider_defs = ollamaProvider_def lmstudioProvider_def vllmProvider_def mlxProvider_def

lemma registered_prefix_cases:
  assumes "p \<in> set (getProviders env)" "pre \<in> set (prefixes p)"
  shows "(p = ollamaProvider env \<and> (pre = ''ollama/'' \<or> pre = ''ollama:''))
       \<or> (p = lmstudioProvider env \<and> (pre = ''lmstudio/'' \<or> pre = ''lmstudio:'' \<or> pre = ''mlstudio/'' \<or> pre = ''mlstudio:''))
       \<or> (p = vllmProvider env \<and> (pre = ''vllm/'' \<or> pre = ''vllm:''))
       \<or> (p = mlxProvider env \<and> (pre = ''mlx/'' \<or> pre = ''mlx:''))"
proof -
  have a: "prefixes (ollamaProvider env) = [''ollama/'', ''ollama:'']"
    by (simp add: ollamaProvider_def)
  have b: "prefixes (lmstudioProvider env) = [''lmstudio/'', ''lmstudio:'', ''mlstudio/'', ''mlstudio:'']"
    by (simp add: lmstudioProvider_def)
  have c: "prefixes (vllmProvider env) = [''vllm/'', ''vllm:'']"
    by (simp add: vllmProvider_def)
  have d: "prefixes (mlxProvider env) = [''mlx/'', ''mlx:'']"
    by (simp add: mlxProvider_def)
  from assms(1) have "p = ollamaProvider env \<or> p = lmstudioProvider env
      \<or> p = vllmProvider env \<or> p = mlxProvider env"
    by (simp add: getProviders_def)
  with assms(2) a b c d show ?thesis by (elim disjE) simp_all
qed

lemma resolve_at:
  "resolveProvider env (''ollama/'' @ r) = Some \<lparr> rp_provider = ollamaProvider env, rp_modelName = r \<rparr>"
  "resolveProvider env (''ollama:'' @ r) = Some \<lparr> rp_provider = ollamaProvider env, rp_modelName = r \<rparr>"
  "resolveProvider env (''lmstudio/'' @ r) = Some \<lparr> rp_provider = lmstudioProvider env, rp_modelName = r \<rparr>"
  "resolveProvider env (''lmstudio:'' @ r) = Some \<lparr> rp_provider = lmstudioProvider env, rp_modelName = r \<rparr>"
  "resolveProvider env (''mlstudio/'' @ r) = Some \<lparr> rp_provider = lmstudioProvider env, rp_modelName = r \<rparr>"
  "resolveProvider env (''mlstudio:'' @ r) = Some \<lparr> rp_provider = lmstudioProvider env, rp_modelName = r \<rparr>"
  "resolveProvider env (''vllm/'' @ r) = Some \<lparr> rp_provider = vllmProvider env, rp_modelName = r \<rparr>"
  "resolveProvider env (''vllm:'' @ r) = Some \<lparr> rp_provider = vllmProvider env, rp_modelName = r \<rparr>"
  "resolveProvider env (''mlx/'' @ r) = Some \<lparr> rp_provider = mlxProvider env, rp_modelName = r \<rparr>"
  "resolveProvider env (''mlx:'' @ r) = Some \<lparr> rp_provider = mlxProvider env, rp_modelName = r \<rparr>"
  by (simp_all add: resolveProvider_def getProviders_def provider_defs startsWith_def slice_def)

lemma resolve_hit:
  assumes "p \<in> set (getProviders env)" "pre \<in> set (prefixes p)"
  shows "resolveProvider env (pre @ r) = Some \<lparr> rp_provider = p, rp_modelName = r \<rparr>"
  using registered_prefix_cases[OF assms]
  by (elim disjE conjE) (hypsubst, rule resolve_at)+

lemma resolvePrefixes_None:
  "(\<forall>pre \<in> set pres. \<not> startsWith m pre) \<Longrightarrow> resolvePrefixes m p pres = None"
  by (induction pres) auto

lemma resolveProviders_None:
  "(\<forall>p \<in> set ps. \<forall>pre \<in> set (prefixes p). \<not> startsWith m pre) \<Longrightarrow> resolveProviders m ps = None"
  by (induction ps) (auto simp: resolvePrefixes_None)

text \<open>
  C2. The registered providers are ollama, lmstudio, vllm and mlx. A model id that
  consists of a registered prefix of a provider followed by any rest resolves to that
  provider and to the rest as the model name; a model id that starts with no registered
  prefix resolves to nothing.
\<close>

theorem resolveProvider_by_prefix:
  "map name (getProviders env) = [''ollama'', ''lmstudio'', ''vllm'', ''mlx'']
   \<and> (\<forall>p \<in> set (getProviders env). \<forall>pre \<in> set (prefixes p).
         resolveProvider env (pre @ rest) = Some \<lparr> rp_provider = p, rp_modelName = rest \<rparr>)
   \<and> ((\<forall>p \<in> set (getProviders env). \<forall>pre \<in> set (prefixes p). \<not> startsWith modelId pre)
         \<longrightarrow> resolveProvider env modelId = None)"
proof (intro conjI ballI impI)
  show "map name (getProviders env) = [''ollama'', ''lmstudio'', ''vllm'', ''mlx'']"
    by (simp add: getProviders_def provider_defs)
next
  fix p pre
  assume "p \<in> set (getProviders env)" "pre \<in> set (prefixes p)"
  then show "resolveProvider env (pre @ rest) = Some \<lparr> rp_provider = p, rp_modelName = rest \<rparr>"
    by (rule resolve_hit)
next
  assume "\<forall>p \<in> set (getProviders env). \<forall>pre \<in> set (prefixes p). \<not> startsWith modelId pre"
  then show "resolveProvider env modelId = None"
    unfolding resolveProvider_def by (rule resolveProviders_None)
qed

theorem resolveProvider_by_prefix_witness:
  "resolveProvider (\<lambda>v. None) ''ollama:llama3.2''
     = Some \<lparr> rp_provider = ollamaProvider (\<lambda>v. None), rp_modelName = ''llama3.2'' \<rparr>
   \<and> resolveProvider (\<lambda>v. None) ''openai/gpt-4o'' = None"
proof -
  have in1: "ollamaProvider (\<lambda>v. None) \<in> set (getProviders (\<lambda>v. None))"
    by (simp add: getProviders_def)
  have in2: "''ollama:'' \<in> set (prefixes (ollamaProvider (\<lambda>v. None)))"
    by (simp add: ollamaProvider_def)
  have none: "\<forall>p \<in> set (getProviders (\<lambda>v. None)). \<forall>pre \<in> set (prefixes p).
      \<not> startsWith ''openai/gpt-4o'' pre"
    by (simp add: getProviders_def provider_defs startsWith_def)
  note t = resolveProvider_by_prefix[of "\<lambda>v. None" "''llama3.2''" "''openai/gpt-4o''"]
  from t in1 in2 have "resolveProvider (\<lambda>v. None) (''ollama:'' @ ''llama3.2'')
     = Some \<lparr> rp_provider = ollamaProvider (\<lambda>v. None), rp_modelName = ''llama3.2'' \<rparr>"
    by blast
  moreover from t none have "resolveProvider (\<lambda>v. None) ''openai/gpt-4o'' = None"
    by blast
  ultimately show ?thesis by simp
qed

subsection \<open>URL-style model ids\<close>

lemma pathParts_segments: "\<forall>seg \<in> set (pathParts u). seg \<noteq> []"
  by (simp add: pathParts_def)

lemma butlast_pathParts_segments: "\<forall>seg \<in> set (butlast (pathParts u)). seg \<noteq> []"
  using pathParts_segments in_set_butlastD by fastforce

lemma parseUrlModel_segments:
  assumes sch: "startsWith modelId ''http://'' \<or> startsWith modelId ''https://''"
    and u: "newURL modelId = Some u" and ne: "pathParts u \<noteq> []"
  shows "parseUrlModel newURL modelId =
       Some \<lparr> up_baseUrl = protocol u @ ''//'' @ host u
                  @ concat (map (\<lambda>seg. ''/'' @ seg) (butlast (pathParts u))),
              up_modelName = last (pathParts u) \<rparr>"
proof (cases "length (pathParts u) > 1")
  case True
  then have bl: "butlast (pathParts u) \<noteq> []"
    by (cases "pathParts u") (auto split: if_splits)
  have j: "join ''/'' (butlast (pathParts u)) \<noteq> []"
    using join_nonempty[OF bl butlast_pathParts_segments] .
  show ?thesis
    using sch u ne True j slash_join[OF bl]
    by (auto simp: parseUrlModel_def Let_def)
next
  case False
  with ne have "butlast (pathParts u) = []"
    by (cases "pathParts u") (auto split: if_splits)
  then show ?thesis
    using sch u ne False by (auto simp: parseUrlModel_def Let_def)
qed

text \<open>
  C6. For a model id that starts with \<open>http://\<close> or \<open>https://\<close> and parses to a URL
  whose path has a non-empty segment, \<open>parseUrlModel\<close> returns the last non-empty
  segment as the model name and, as the base URL, the protocol, \<open>//\<close>, the host and
  each of the leading non-empty segments after a slash. It returns null for a model id
  that starts with neither scheme, for a URL whose path has no non-empty segment, and
  for a model id that the URL parser rejects.
\<close>

theorem parseUrlModel_last_segment:
  "((startsWith modelId ''http://'' \<or> startsWith modelId ''https://'')
      \<and> newURL modelId = Some u \<and> pathParts u \<noteq> [] \<longrightarrow>
      parseUrlModel newURL modelId =
        Some \<lparr> up_baseUrl = protocol u @ ''//'' @ host u
                   @ concat (map (\<lambda>seg. ''/'' @ seg) (butlast (pathParts u))),
               up_modelName = last (pathParts u) \<rparr>)
   \<and> (\<not> startsWith modelId ''http://'' \<and> \<not> startsWith modelId ''https://'' \<longrightarrow>
      parseUrlModel newURL modelId = None)
   \<and> (newURL modelId = Some u \<and> pathParts u = [] \<longrightarrow> parseUrlModel newURL modelId = None)
   \<and> (newURL modelId = None \<longrightarrow> parseUrlModel newURL modelId = None)"
proof (intro conjI impI)
  assume "(startsWith modelId ''http://'' \<or> startsWith modelId ''https://'')
      \<and> newURL modelId = Some u \<and> pathParts u \<noteq> []"
  then show "parseUrlModel newURL modelId =
        Some \<lparr> up_baseUrl = protocol u @ ''//'' @ host u
                   @ concat (map (\<lambda>seg. ''/'' @ seg) (butlast (pathParts u))),
               up_modelName = last (pathParts u) \<rparr>"
    using parseUrlModel_segments by blast
next
  assume "\<not> startsWith modelId ''http://'' \<and> \<not> startsWith modelId ''https://''"
  then show "parseUrlModel newURL modelId = None"
    by (simp add: parseUrlModel_def)
next
  assume "newURL modelId = Some u \<and> pathParts u = []"
  then show "parseUrlModel newURL modelId = None"
    by (simp add: parseUrlModel_def Let_def)
next
  assume "newURL modelId = None"
  then show "parseUrlModel newURL modelId = None"
    by (simp add: parseUrlModel_def)
qed

text \<open>
  The URL \<open>http://localhost:11434/v1/llama3\<close> has protocol \<open>http:\<close>, host
  \<open>localhost:11434\<close> and path \<open>/v1/llama3\<close>; \<open>http://localhost:11434\<close> has the
  path \<open>/\<close>.
\<close>

theorem parseUrlModel_last_segment_witness:
  "parseUrlModel
      (\<lambda>s. Some \<lparr> protocol = ''http:'', host = ''localhost:11434'', pathname = ''/v1/llama3'' \<rparr>)
      ''http://localhost:11434/v1/llama3''
     = Some \<lparr> up_baseUrl = ''http://localhost:11434/v1'', up_modelName = ''llama3'' \<rparr>
   \<and> parseUrlModel
      (\<lambda>s. Some \<lparr> protocol = ''http:'', host = ''localhost:11434'', pathname = ''/'' \<rparr>)
      ''http://localhost:11434'' = None
   \<and> parseUrlModel (\<lambda>s. None) ''ollama/llama3'' = None"
proof -
  have parts: "pathParts \<lparr> protocol = ''http:'', host = ''localhost:11434'', pathname = ''/v1/llama3'' \<rparr>
      = [''v1'', ''llama3'']"
    by (simp add: pathParts_def)
  have noparts: "pathParts \<lparr> protocol = ''http:'', host = ''localhost:11434'', pathname = ''/'' \<rparr> = []"
    by (simp add: pathParts_def)
  have sch: "startsWith ''http://localhost:11434/v1/llama3'' ''http://''"
    by (simp add: startsWith_def)
  have nosch: "\<not> startsWith ''ollama/llama3'' ''http://'' \<and> \<not> startsWith ''ollama/llama3'' ''https://''"
    by (simp add: startsWith_def)
  from parseUrlModel_last_segment[of "''http://localhost:11434/v1/llama3''"
      "\<lambda>s. Some \<lparr> protocol = ''http:'', host = ''localhost:11434'', pathname = ''/v1/llama3'' \<rparr>"
      "\<lparr> protocol = ''http:'', host = ''localhost:11434'', pathname = ''/v1/llama3'' \<rparr>"]
    sch parts
  have a: "parseUrlModel
      (\<lambda>s. Some \<lparr> protocol = ''http:'', host = ''localhost:11434'', pathname = ''/v1/llama3'' \<rparr>)
      ''http://localhost:11434/v1/llama3''
     = Some \<lparr> up_baseUrl = ''http://localhost:11434/v1'', up_modelName = ''llama3'' \<rparr>"
    by simp
  from parseUrlModel_last_segment[of "''http://localhost:11434''"
      "\<lambda>s. Some \<lparr> protocol = ''http:'', host = ''localhost:11434'', pathname = ''/'' \<rparr>"
      "\<lparr> protocol = ''http:'', host = ''localhost:11434'', pathname = ''/'' \<rparr>"]
    noparts
  have b: "parseUrlModel
      (\<lambda>s. Some \<lparr> protocol = ''http:'', host = ''localhost:11434'', pathname = ''/'' \<rparr>)
      ''http://localhost:11434'' = None"
    by simp
  from parseUrlModel_last_segment[of "''ollama/llama3''" "\<lambda>s. None"] nosch
  have c: "parseUrlModel (\<lambda>s. None) ''ollama/llama3'' = None"
    by blast
  from a b c show ?thesis by blast
qed

subsection \<open>Port selection\<close>

lemma sequentialSearch_range:
  "sequentialSearch sys k p endPort = Some q \<Longrightarrow> p \<le> q \<and> q \<le> endPort"
proof (induction sys k p endPort rule: sequentialSearch.induct)
  case (1 sys k p endPort)
  show ?case
  proof (cases "p \<le> endPort \<and> \<not> isPortAvailable sys k p")
    case True
    with "1.prems" have "sequentialSearch sys (k + 1) (p + 1) endPort = Some q"
      by (simp add: sequentialSearch.simps[of sys k p endPort])
    with "1.IH" True have "p + 1 \<le> q \<and> q \<le> endPort" by simp
    then show ?thesis by simp
  next
    case False
    with "1.prems" show ?thesis
      by (auto simp: sequentialSearch.simps[of sys k p endPort] split: if_splits)
  qed
qed

lemma randomPort_range:
  fixes random :: rat
  assumes "startPort \<le> endPort" "0 \<le> random" "random < 1"
  shows "startPort \<le> \<lfloor>random * of_int (endPort - startPort + 1)\<rfloor> + startPort"
    and "\<lfloor>random * of_int (endPort - startPort + 1)\<rfloor> + startPort \<le> endPort"
proof -
  let ?n = "endPort - startPort + 1"
  have n: "0 < (of_int ?n :: rat)" using assms(1) by simp
  have "0 \<le> random * of_int ?n" using assms(2) n by simp
  then have lo: "0 \<le> \<lfloor>random * of_int ?n\<rfloor>" by simp
  have "random * of_int ?n < of_int ?n" using assms(3) n by simp
  then have hi: "\<lfloor>random * of_int ?n\<rfloor> < ?n" by (rule iffD2[OF floor_less_iff])
  from lo show "startPort \<le> \<lfloor>random * of_int ?n\<rfloor> + startPort" by simp
  from hi show "\<lfloor>random * of_int ?n\<rfloor> + startPort \<le> endPort" by simp
qed

text \<open>
  C10. With \<open>startPort \<le> endPort\<close> and a value of \<open>Math.random()\<close> in \<open>[0, 1)\<close>, a port
  that \<open>findAvailablePort\<close> returns lies between \<open>startPort\<close> and \<open>endPort\<close>; with the
  default arguments, between 3000 and 9000.
\<close>

theorem findAvailablePort_in_range:
  "startPort \<le> endPort \<and> 0 \<le> random \<and> random < 1 \<longrightarrow>
     (findAvailablePort random sys startPort endPort = Inr p \<longrightarrow> startPort \<le> p \<and> p \<le> endPort)
     \<and> (findAvailablePort random sys 3000 9000 = Inr q \<longrightarrow> 3000 \<le> q \<and> q \<le> 9000)"
proof (intro impI conjI)
  assume a: "startPort \<le> endPort \<and> 0 \<le> random \<and> random < 1"
  have range: "lo \<le> r \<and> r \<le> hi"
    if le: "lo \<le> hi" and res: "findAvailablePort random sys lo hi = Inr r" for lo hi r
  proof (cases "isPortAvailable sys 0 (\<lfloor>random * of_int (hi - lo + 1)\<rfloor> + lo)")
    case True
    with res have "r = \<lfloor>random * of_int (hi - lo + 1)\<rfloor> + lo"
      by (simp add: findAvailablePort_def Let_def)
    with randomPort_range[OF le, of random] a show ?thesis by simp
  next
    case False
    with res have "sequentialSearch sys 1 lo hi = Some r"
      by (simp add: findAvailablePort_def Let_def split: option.splits)
    then show ?thesis by (rule sequentialSearch_range)
  qed
  {
    assume "findAvailablePort random sys startPort endPort = Inr p"
    with a range show "startPort \<le> p" "p \<le> endPort" by blast+
  }
  {
    assume "findAvailablePort random sys 3000 9000 = Inr q"
    with range[of 3000 9000 q] show "3000 \<le> q" "q \<le> 9000" by simp_all
  }
qed

text \<open>
  With \<open>Math.random()\<close> at one half, the random candidate is 6000. Where every port
  listens it is returned; where 6000 and 3000 are in use the search returns 3001.
\<close>

theorem findAvailablePort_in_range_witness:
  "findAvailablePort (1 / 2) (\<lambda>k p. Listening) 3000 9000 = Inr 6000
   \<and> findAvailablePort (1 / 2)
        (\<lambda>k p. if p = 6000 \<or> p = 3000 then ListenError ''EADDRINUSE'' else Listening) 3000 9000
      = Inr 3001
   \<and> (3000::int) \<le> 3001 \<and> (3001::int) \<le> 9000"
proof -
  have r: "\<lfloor>(1 / 2 :: rat) * of_int (9000 - 3000 + 1)\<rfloor> = 3000"
    by (rule floor_unique) simp_all
  let ?sys = "\<lambda>(k::nat) (p::int). if p = 6000 \<or> p = 3000 then ListenError ''EADDRINUSE'' else Listening"
  have s: "sequentialSearch ?sys 1 3000 9000 = Some 3001"
    by (subst sequentialSearch.simps, subst sequentialSearch.simps)
      (simp add: isPortAvailable_def)
  have a: "findAvailablePort (1 / 2) (\<lambda>k p. Listening) 3000 9000 = Inr 6000"
    using r by (simp add: findAvailablePort_def isPortAvailable_def)
  have b: "findAvailablePort (1 / 2)
        (\<lambda>k p. if p = 6000 \<or> p = 3000 then ListenError ''EADDRINUSE'' else Listening) 3000 9000
      = Inr 3001"
    using r s by (simp add: findAvailablePort_def isPortAvailable_def)
  from findAvailablePort_in_range[of 3000 9000 "1 / 2"
      "\<lambda>k p. if p = 6000 \<or> p = 3000 then ListenError ''EADDRINUSE'' else Listening" 3001 3001] b
  have "(3000::int) \<le> 3001 \<and> (3001::int) \<le> 9000" by simp
  with a b show ?thesis by blast
qed

subsection \<open>The requests made by \<open>handle\<close>\<close>

lemma issued_append [simp]: "issued reqs (reqs @ new) = new"
  by (simp add: issued_def)

lemma checkHealth_cases:
  obtains
    (memo) "healthChecked h" "checkHealth net h reqs = (isHealthy h, h, reqs)"
  | (tags) status body where "\<not> healthChecked h"
      "net reqs (GET (baseUrl (provider h) @ ''/api/tags'')) = Response status body"
      "checkHealth net h reqs =
         (ok status, h\<lparr> healthChecked := True, isHealthy := ok status \<rparr>,
          reqs @ [GET (baseUrl (provider h) @ ''/api/tags'')])"
  | (models) e status body where "\<not> healthChecked h"
      "net reqs (GET (baseUrl (provider h) @ ''/api/tags'')) = Threw e"
      "net (reqs @ [GET (baseUrl (provider h) @ ''/api/tags'')])
           (GET (baseUrl (provider h) @ ''/v1/models'')) = Response status body"
      "checkHealth net h reqs =
         (ok status, h\<lparr> healthChecked := True, isHealthy := ok status \<rparr>,
          reqs @ [GET (baseUrl (provider h) @ ''/api/tags''),
                  GET (baseUrl (provider h) @ ''/v1/models'')])"
  | (down) e e2 where "\<not> healthChecked h"
      "net reqs (GET (baseUrl (provider h) @ ''/api/tags'')) = Threw e"
      "net (reqs @ [GET (baseUrl (provider h) @ ''/api/tags'')])
           (GET (baseUrl (provider h) @ ''/v1/models'')) = Threw e2"
      "checkHealth net h reqs =
         (False, h\<lparr> healthChecked := True, isHealthy := False \<rparr>,
          reqs @ [GET (baseUrl (provider h) @ ''/api/tags''),
                  GET (baseUrl (provider h) @ ''/v1/models'')])"
proof (cases "healthChecked h")
  case True
  then show ?thesis using memo by (simp add: checkHealth_def)
next
  case nc: False
  show ?thesis
  proof (cases "net reqs (GET (baseUrl (provider h) @ ''/api/tags''))")
    case (Response status body)
    with nc show ?thesis using tags[of status body]
      by (simp add: checkHealth_def Let_def)
  next
    case t: (Threw e)
    show ?thesis
    proof (cases "net (reqs @ [GET (baseUrl (provider h) @ ''/api/tags'')])
           (GET (baseUrl (provider h) @ ''/v1/models''))")
      case (Response status body)
      with nc t show ?thesis using models[of e status body]
        by (simp add: checkHealth_def Let_def)
    next
      case (Threw e2)
      with nc t show ?thesis using down[of e e2]
        by (simp add: checkHealth_def Let_def)
    qed
  qed
qed

lemma fetchContextWindow_frame:
  "fetchContextWindow parse pInt net h reqs = (h2, reqs2) \<Longrightarrow>
     provider h2 = provider h \<and> modelName h2 = modelName h
     \<and> healthChecked h2 = healthChecked h \<and> isHealthy h2 = isHealthy h
     \<and> (reqs2 = reqs \<or> reqs2 = reqs @ [POST_show (baseUrl (provider h) @ ''/api/show'') (modelName h)])"
  by (auto simp: fetchContextWindow_def Let_def split: if_splits fetch_result.splits sum.splits)

lemma forward_log:
  "snd (forward d net h reqs payload) =
     (h, reqs @ [POST_chat (baseUrl (provider h) @ apiPath (provider h))
                   (prepareRequest d (builtPayload d h payload) (claudeRequestOf d payload))])"
  by (simp add: forward_def builtPayload_def claudeRequestOf_def Let_def
      split: fetch_result.splits option.splits sum.splits)

lemma builtPayload_cong:
  "provider h2 = provider h \<Longrightarrow> modelName h2 = modelName h \<Longrightarrow>
     builtPayload d h2 payload = builtPayload d h payload"
  by (simp add: builtPayload_def)

text \<open>
  What \<open>handle\<close> adds to the log: health probes and the context-window probe on the
  first request, and then at most the one chat request.
\<close>

lemma handle_chat_request:
  assumes "POST_chat u p \<in> set (issued reqs (snd (snd (handle d net h reqs payload))))"
  shows "u = baseUrl (provider h) @ apiPath (provider h)
       \<and> p = prepareRequest d (builtPayload d h payload) (claudeRequestOf d payload)"
proof (cases "healthChecked h")
  case True
  then have "snd (snd (handle d net h reqs payload)) = snd (snd (forward d net h reqs payload))"
    by (simp add: handle_def)
  with assms show ?thesis by (simp add: forward_log)
next
  case nc: False
  obtain b h1 reqs1 where ch: "checkHealth net h reqs = (b, h1, reqs1)"
    by (cases "checkHealth net h reqs") auto
  have frame1: "provider h1 = provider h \<and> modelName h1 = modelName h
      \<and> (\<exists>ps. reqs1 = reqs @ ps \<and> (\<forall>q \<in> set ps. \<exists>v. q = GET v))"
    by (rule checkHealth_cases[where h=h and net=net and reqs=reqs]) (use ch in auto)
  then obtain ps where ps: "reqs1 = reqs @ ps" "\<forall>q \<in> set ps. \<exists>v. q = GET v" by blast
  show ?thesis
  proof (cases b)
    case False
    with nc ch have "snd (snd (handle d net h reqs payload)) = reqs1"
      by (simp add: handle_def)
    with assms ps show ?thesis by auto
  next
    case True
    obtain h2 reqs2 where fc: "fetchContextWindow (JSON_parse d) (parseInt d) net h1 reqs1 = (h2, reqs2)"
      by (cases "fetchContextWindow (JSON_parse d) (parseInt d) net h1 reqs1") auto
    note fr = fetchContextWindow_frame[OF fc]
    from nc ch True fc have hd: "snd (snd (handle d net h reqs payload))
        = reqs2 @ [POST_chat (baseUrl (provider h2) @ apiPath (provider h2))
                   (prepareRequest d (builtPayload d h2 payload) (claudeRequestOf d payload))]"
      by (simp add: handle_def forward_log)
    have same: "provider h2 = provider h" "modelName h2 = modelName h"
      using fr frame1 by simp_all
    have bp: "builtPayload d h2 payload = builtPayload d h payload"
      using same by (rule builtPayload_cong)
    from fr obtain qs where qs: "reqs2 = reqs1 @ qs" "\<forall>q \<in> set qs. \<exists>v m. q = POST_show v m"
      by (cases "reqs2 = reqs1") auto
    from assms have "POST_chat u p \<in> set (ps @ qs @
        [POST_chat (baseUrl (provider h) @ apiPath (provider h))
           (prepareRequest d (builtPayload d h payload) (claudeRequestOf d payload))])"
      unfolding hd qs ps bp same by simp
    with ps(2) qs(2) show ?thesis by auto
  qed
qed




subsection \<open>The outbound payload\<close>

lemma builtPayload_parameters:
  "op_max_tokens (builtPayload d h payload) = cr_max_tokens (claudeRequestOf d payload)"
  "op_temperature (builtPayload d h payload) = orOne (cr_temperature (claudeRequestOf d payload))"
  "op_stream (builtPayload d h payload) = supportsStreaming (capabilities (provider h))"
  by (simp_all add: builtPayload_def openAIPayload_def Let_def)

lemma builtPayload_tools:
  "op_tools (builtPayload d h payload)
     = (if finalTools (provider h) (convertToolsToOpenAI d (claudeRequestOf d payload)) = [] then None
        else Some (finalTools (provider h) (convertToolsToOpenAI d (claudeRequestOf d payload))))"
  by (simp add: builtPayload_def openAIPayload_def Let_def)

lemma builtPayload_no_tools:
  "finalTools (provider h) (convertToolsToOpenAI d (claudeRequestOf d payload)) = [] \<Longrightarrow>
     op_tool_choice (builtPayload d h payload) = None"
  by (simp add: builtPayload_def openAIPayload_def Let_def)

lemma builtPayload_choice_object:
  assumes "finalTools (provider h) (convertToolsToOpenAI d (claudeRequestOf d payload)) \<noteq> []"
    and "cr_tool_choice (claudeRequestOf d payload) = Some (JObj kvs)"
  shows "map_of kvs ''type'' = Some (JStr ''tool'') \<Longrightarrow> map_of kvs ''name'' = Some n
           \<Longrightarrow> truthy (Some n) \<Longrightarrow>
           op_tool_choice (builtPayload d h payload) = Some (ToolChoiceFunction n)"
    and "map_of kvs ''type'' = Some (JStr ''auto'') \<Longrightarrow>
           op_tool_choice (builtPayload d h payload) = Some (ToolChoiceString ''auto'')"
    and "map_of kvs ''type'' = Some (JStr ''none'') \<Longrightarrow>
           op_tool_choice (builtPayload d h payload) = Some (ToolChoiceString ''none'')"
  using assms
  by (simp_all add: builtPayload_def openAIPayload_def choiceType_def choiceName_def Let_def)

lemma builtPayload_choice_other:
  assumes "\<forall>kvs. cr_tool_choice (claudeRequestOf d payload) \<noteq> Some (JObj kvs)"
  shows "op_tool_choice (builtPayload d h payload) = None"
proof (cases "cr_tool_choice (claudeRequestOf d payload)")
  case None
  then show ?thesis by (simp add: builtPayload_def openAIPayload_def Let_def)
next
  case (Some v)
  with assms have "choiceType v = None"
    by (cases v) (simp_all add: choiceType_def)
  with Some show ?thesis by (simp add: builtPayload_def openAIPayload_def Let_def)
qed

lemma finalTools_empty_iff:
  "finalTools prov tools = [] \<longleftrightarrow> \<not> supportsTools (capabilities prov) \<or> tools = []"
  by (simp add: finalTools_def)

text \<open>
  C5. Every chat request that \<open>handle\<close> sends carries the payload built from the
  request, passed through the adapter's hook. Where the hook leaves the field as
  \<open>handle\<close> set it, the \<open>max_tokens\<close> sent is the \<open>max_tokens\<close> of the request,
  unchanged; the \<open>temperature\<close> sent is the temperature of the request, and 1 when the
  request has none (\<open>undefined\<close> or \<open>null\<close>); and the \<open>stream\<close> flag sent is the
  \<open>supportsStreaming\<close> capability of the provider: the \<open>stream\<close> value of the request
  is not read.
\<close>

theorem outbound_parameter_policy:
  "POST_chat u p \<in> set (issued reqs (snd (snd (handle d net h reqs payload)))) \<longrightarrow>
     p = sentPayload d h payload
     \<and> (op_max_tokens (sentPayload d h payload) = op_max_tokens (builtPayload d h payload) \<longrightarrow>
          op_max_tokens p = cr_max_tokens (claudeRequestOf d payload))
     \<and> (op_temperature (sentPayload d h payload) = op_temperature (builtPayload d h payload) \<longrightarrow>
          (cr_temperature (claudeRequestOf d payload) = Some t \<and> t \<noteq> JNull \<longrightarrow>
             op_temperature p = t)
        \<and> (cr_temperature (claudeRequestOf d payload) = None
             \<or> cr_temperature (claudeRequestOf d payload) = Some JNull \<longrightarrow>
             op_temperature p = JNum 1))
     \<and> (op_stream (sentPayload d h payload) = op_stream (builtPayload d h payload) \<longrightarrow>
          op_stream p = supportsStreaming (capabilities (provider h)))"
proof
  assume "POST_chat u p \<in> set (issued reqs (snd (snd (handle d net h reqs payload))))"
  then have p: "p = sentPayload d h payload"
    using handle_chat_request by (simp add: sentPayload_def)
  have t1: "cr_temperature (claudeRequestOf d payload) = Some t \<and> t \<noteq> JNull \<longrightarrow>
      orOne (cr_temperature (claudeRequestOf d payload)) = t"
    by (cases t) simp_all
  have t2: "cr_temperature (claudeRequestOf d payload) = None
             \<or> cr_temperature (claudeRequestOf d payload) = Some JNull \<longrightarrow>
      orOne (cr_temperature (claudeRequestOf d payload)) = JNum 1"
    by auto
  from p t1 t2 show "p = sentPayload d h payload
     \<and> (op_max_tokens (sentPayload d h payload) = op_max_tokens (builtPayload d h payload) \<longrightarrow>
          op_max_tokens p = cr_max_tokens (claudeRequestOf d payload))
     \<and> (op_temperature (sentPayload d h payload) = op_temperature (builtPayload d h payload) \<longrightarrow>
          (cr_temperature (claudeRequestOf d payload) = Some t \<and> t \<noteq> JNull \<longrightarrow>
             op_temperature p = t)
        \<and> (cr_temperature (claudeRequestOf d payload) = None
             \<or> cr_temperature (claudeRequestOf d payload) = Some JNull \<longrightarrow>
             op_temperature p = JNum 1))
     \<and> (op_stream (sentPayload d h payload) = op_stream (builtPayload d h payload) \<longrightarrow>
          op_stream p = supportsStreaming (capabilities (provider h)))"
    by (simp add: builtPayload_parameters)
qed

text \<open>
  A first request with \<open>max_tokens: 100\<close> and no temperature, through a handler for
  ollama and an adapter that leaves the payload as it is: the chat request is sent, with
  \<open>max_tokens\<close> 100, temperature 1 and \<open>stream: true\<close>.
\<close>

theorem outbound_parameter_policy_witness:
  "POST_chat ''http://localhost:11434/v1/chat/completions''
      (sentPayload
         (exampleDeps \<lparr> cr_max_tokens = Some (JNum 100), cr_temperature = None,
                         cr_stream = Some (JBool False), cr_tool_choice = None, cr_tools = None \<rparr>
            [] (\<lambda>s. None) (\<lambda>v. NaN))
         (LocalProviderHandler (ollamaProvider (\<lambda>v. None)) ''llama3'' 3000) (JObj []))
     \<in> set (issued []
         (snd (snd (handle
            (exampleDeps \<lparr> cr_max_tokens = Some (JNum 100), cr_temperature = None,
                            cr_stream = Some (JBool False), cr_tool_choice = None, cr_tools = None \<rparr>
               [] (\<lambda>s. None) (\<lambda>v. NaN))
            (\<lambda>reqs q. Response 200 [])
            (LocalProviderHandler (ollamaProvider (\<lambda>v. None)) ''llama3'' 3000) [] (JObj [])))))
   \<and> op_max_tokens (sentPayload
         (exampleDeps \<lparr> cr_max_tokens = Some (JNum 100), cr_temperature = None,
                         cr_stream = Some (JBool False), cr_tool_choice = None, cr_tools = None \<rparr>
            [] (\<lambda>s. None) (\<lambda>v. NaN))
         (LocalProviderHandler (ollamaProvider (\<lambda>v. None)) ''llama3'' 3000) (JObj []))
       = Some (JNum 100)
   \<and> op_temperature (sentPayload
         (exampleDeps \<lparr> cr_max_tokens = Some (JNum 100), cr_temperature = None,
                         cr_stream = Some (JBool False), cr_tool_choice = None, cr_tools = None \<rparr>
            [] (\<lambda>s. None) (\<lambda>v. NaN))
         (LocalProviderHandler (ollamaProvider (\<lambda>v. None)) ''llama3'' 3000) (JObj []))
       = JNum 1
   \<and> op_stream (sentPayload
         (exampleDeps \<lparr> cr_max_tokens = Some (JNum 100), cr_temperature = None,
                         cr_stream = Some (JBool False), cr_tool_choice = None, cr_tools = None \<rparr>
            [] (\<lambda>s. None) (\<lambda>v. NaN))
         (LocalProviderHandler (ollamaProvider (\<lambda>v. None)) ''llama3'' 3000) (JObj []))"
proof -
  let ?cr = "\<lparr> cr_max_tokens = Some (JNum 100), cr_temperature = None,
                cr_stream = Some (JBool False), cr_tool_choice = None, cr_tools = None \<rparr>"
  let ?d = "exampleDeps ?cr [] (\<lambda>s. None) (\<lambda>v. NaN)"
  let ?h = "LocalProviderHandler (ollamaProvider (\<lambda>v. None)) ''llama3'' 3000"
  let ?net = "\<lambda>(reqs :: http_request list) (q :: http_request). Response 200 []"
  let ?u = "''http://localhost:11434/v1/chat/completions''"
  have hook: "sentPayload ?d ?h (JObj []) = builtPayload ?d ?h (JObj [])"
    by (simp add: sentPayload_def exampleDeps_def)
  have sent: "POST_chat ?u (sentPayload ?d ?h (JObj []))
      \<in> set (issued [] (snd (snd (handle ?d ?net ?h [] (JObj [])))))"
    by (simp add: handle_def checkHealth_def fetchContextWindow_def contextFromShow_def
        forward_def sentPayload_def builtPayload_def claudeRequestOf_def
        exampleDeps_def LocalProviderHandler_def
        ollamaProvider_def ok_def issued_def Let_def)
  have cr: "claudeRequestOf ?d (JObj []) = ?cr"
    by (simp add: claudeRequestOf_def exampleDeps_def)
  have caps: "supportsStreaming (capabilities (provider ?h))"
    by (simp add: LocalProviderHandler_def ollamaProvider_def)
  from outbound_parameter_policy[of ?u "sentPayload ?d ?h (JObj [])" "[]" ?d ?net ?h "JObj []"]
    sent hook cr caps
  have "op_max_tokens (sentPayload ?d ?h (JObj [])) = Some (JNum 100)
      \<and> op_temperature (sentPayload ?d ?h (JObj [])) = JNum 1
      \<and> op_stream (sentPayload ?d ?h (JObj []))"
    by simp
  with sent show ?thesis by blast
qed

text \<open>
  The same request asks for \<open>stream: false\<close>; the chat request sent has
  \<open>stream: true\<close>, the capability of the provider. And with an adapter whose hook
  sets the temperature to 0, a request without a temperature is sent with temperature 0,
  not 1.
\<close>

theorem stream_flag_counterexample:
  "cr_stream (claudeRequestOf
      (exampleDeps \<lparr> cr_max_tokens = Some (JNum 100), cr_temperature = None,
                      cr_stream = Some (JBool False), cr_tool_choice = None, cr_tools = None \<rparr>
         [] (\<lambda>s. None) (\<lambda>v. NaN))
      (JObj [(''stream'', JBool False)])) = Some (JBool False)
   \<and> handle
        (exampleDeps \<lparr> cr_max_tokens = Some (JNum 100), cr_temperature = None,
                        cr_stream = Some (JBool False), cr_tool_choice = None, cr_tools = None \<rparr>
           [] (\<lambda>s. None) (\<lambda>v. NaN))
        (\<lambda>reqs q. Response 200 [])
        (LocalProviderHandler (ollamaProvider (\<lambda>v. None)) ''llama3'' 3000)
        [] (JObj [(''stream'', JBool False)])
     = (Streamed None 200 [],
        \<lparr> provider = ollamaProvider (\<lambda>v. None), modelName = ''llama3'', port = 3000,
          healthChecked = True, isHealthy = True, contextWindow = Num 8192,
          sessionInputTokens = 0, sessionOutputTokens = 0 \<rparr>,
        [GET ''http://localhost:11434/api/tags'',
         POST_show ''http://localhost:11434/api/show'' ''llama3'',
         POST_chat ''http://localhost:11434/v1/chat/completions''
           \<lparr> op_model = ''llama3'', op_messages = [], op_temperature = JNum 1, op_stream = True,
             op_max_tokens = Some (JNum 100), op_tools = None, op_stream_options = Some True,
             op_tool_choice = None \<rparr>])
   \<and> issued []
       (snd (snd (handle
          ((exampleDeps \<lparr> cr_max_tokens = Some (JNum 100), cr_temperature = None,
                           cr_stream = Some (JBool False), cr_tool_choice = None, cr_tools = None \<rparr>
              [] (\<lambda>s. None) (\<lambda>v. NaN))
             \<lparr> prepareRequest := (\<lambda>q claudeRequest. q\<lparr> op_temperature := JNum 0 \<rparr>) \<rparr>)
          (\<lambda>reqs q. Response 200 [])
          ((LocalProviderHandler (ollamaProvider (\<lambda>v. None)) ''llama3'' 3000)
             \<lparr> healthChecked := True, isHealthy := True \<rparr>)
          [] (JObj []))))
     = [POST_chat ''http://localhost:11434/v1/chat/completions''
          \<lparr> op_model = ''llama3'', op_messages = [], op_temperature = JNum 0, op_stream = True,
            op_max_tokens = Some (JNum 100), op_tools = None, op_stream_options = Some True,
            op_tool_choice = None \<rparr>]"
  by (simp add: handle_def checkHealth_def fetchContextWindow_def contextFromShow_def
      forward_def openAIPayload_def finalTools_def exampleDeps_def LocalProviderHandler_def
      claudeRequestOf_def ollamaProvider_def ok_def issued_def Let_def)

text \<open>
  C8. Every chat request that \<open>handle\<close> sends carries the payload built from the
  request, passed through the adapter's hook; where the hook leaves \<open>tools\<close> and
  \<open>tool_choice\<close> as \<open>handle\<close> set them, the following is sent. When the list of
  outbound tools is not empty, the tools are sent, and a \<open>tool_choice\<close> that is an
  object of type \<open>tool\<close> with a truthy name becomes the function choice of that name,
  one of type \<open>auto\<close> or \<open>none\<close> becomes the bare string \<open>auto\<close> or \<open>none\<close>, and
  a \<open>tool_choice\<close> that is not an object, such as a bare string, is left out. When the
  list of outbound tools is empty, which is the case exactly when the provider lacks tool
  support or the request converts to no tools, neither a \<open>tool_choice\<close> nor a
  \<open>tools\<close> field is sent.
\<close>

theorem tool_choice_conversion:
  "POST_chat u p \<in> set (issued reqs (snd (snd (handle d net h reqs payload))))
   \<and> op_tools (sentPayload d h payload) = op_tools (builtPayload d h payload)
   \<and> op_tool_choice (sentPayload d h payload) = op_tool_choice (builtPayload d h payload) \<longrightarrow>
     p = sentPayload d h payload
     \<and> (finalTools (provider h) (convertToolsToOpenAI d (claudeRequestOf d payload)) \<noteq> [] \<longrightarrow>
          op_tools p
            = Some (finalTools (provider h) (convertToolsToOpenAI d (claudeRequestOf d payload)))
        \<and> (cr_tool_choice (claudeRequestOf d payload) = Some (JObj kvs) \<longrightarrow>
             (map_of kvs ''type'' = Some (JStr ''tool'') \<and> map_of kvs ''name'' = Some n
                \<and> truthy (Some n) \<longrightarrow>
                op_tool_choice p = Some (ToolChoiceFunction n))
           \<and> (map_of kvs ''type'' = Some (JStr ''auto'') \<longrightarrow>
                op_tool_choice p = Some (ToolChoiceString ''auto''))
           \<and> (map_of kvs ''type'' = Some (JStr ''none'') \<longrightarrow>
                op_tool_choice p = Some (ToolChoiceString ''none'')))
        \<and> ((\<forall>fields. cr_tool_choice (claudeRequestOf d payload) \<noteq> Some (JObj fields)) \<longrightarrow>
             op_tool_choice p = None))
     \<and> (finalTools (provider h) (convertToolsToOpenAI d (claudeRequestOf d payload)) = [] \<longrightarrow>
          op_tool_choice p = None \<and> op_tools p = None)
     \<and> (finalTools (provider h) (convertToolsToOpenAI d (claudeRequestOf d payload)) = []
          \<longleftrightarrow> \<not> supportsTools (capabilities (provider h))
               \<or> convertToolsToOpenAI d (claudeRequestOf d payload) = [])"
proof
  assume a: "POST_chat u p \<in> set (issued reqs (snd (snd (handle d net h reqs payload))))
   \<and> op_tools (sentPayload d h payload) = op_tools (builtPayload d h payload)
   \<and> op_tool_choice (sentPayload d h payload) = op_tool_choice (builtPayload d h payload)"
  then have "POST_chat u p \<in> set (issued reqs (snd (snd (handle d net h reqs payload))))"
    by simp
  then have p: "p = sentPayload d h payload"
    using handle_chat_request by (simp add: sentPayload_def)
  from a p have tools: "op_tools p = op_tools (builtPayload d h payload)"
    and choice: "op_tool_choice p = op_tool_choice (builtPayload d h payload)"
    by simp_all
  let ?ft = "finalTools (provider h) (convertToolsToOpenAI d (claudeRequestOf d payload))"
  have c1: "?ft \<noteq> [] \<longrightarrow> op_tools p = Some ?ft"
    by (simp add: tools builtPayload_tools)
  have c2: "?ft \<noteq> [] \<longrightarrow> cr_tool_choice (claudeRequestOf d payload) = Some (JObj kvs) \<longrightarrow>
             (map_of kvs ''type'' = Some (JStr ''tool'') \<and> map_of kvs ''name'' = Some n
                \<and> truthy (Some n) \<longrightarrow>
                op_tool_choice p = Some (ToolChoiceFunction n))
           \<and> (map_of kvs ''type'' = Some (JStr ''auto'') \<longrightarrow>
                op_tool_choice p = Some (ToolChoiceString ''auto''))
           \<and> (map_of kvs ''type'' = Some (JStr ''none'') \<longrightarrow>
                op_tool_choice p = Some (ToolChoiceString ''none''))"
    unfolding choice using builtPayload_choice_object[of h d payload kvs] by blast
  have c3: "(\<forall>fields. cr_tool_choice (claudeRequestOf d payload) \<noteq> Some (JObj fields)) \<longrightarrow>
             op_tool_choice p = None"
    unfolding choice using builtPayload_choice_other by blast
  have c4: "?ft = [] \<longrightarrow> op_tool_choice p = None \<and> op_tools p = None"
    by (simp add: tools choice builtPayload_tools builtPayload_no_tools)
  have c5: "?ft = [] \<longleftrightarrow> \<not> supportsTools (capabilities (provider h))
               \<or> convertToolsToOpenAI d (claudeRequestOf d payload) = []"
    by (rule finalTools_empty_iff)
  from p c1 c2 c3 c4 c5 show "p = sentPayload d h payload
     \<and> (?ft \<noteq> [] \<longrightarrow>
          op_tools p = Some ?ft
        \<and> (cr_tool_choice (claudeRequestOf d payload) = Some (JObj kvs) \<longrightarrow>
             (map_of kvs ''type'' = Some (JStr ''tool'') \<and> map_of kvs ''name'' = Some n
                \<and> truthy (Some n) \<longrightarrow>
                op_tool_choice p = Some (ToolChoiceFunction n))
           \<and> (map_of kvs ''type'' = Some (JStr ''auto'') \<longrightarrow>
                op_tool_choice p = Some (ToolChoiceString ''auto''))
           \<and> (map_of kvs ''type'' = Some (JStr ''none'') \<longrightarrow>
                op_tool_choice p = Some (ToolChoiceString ''none'')))
        \<and> ((\<forall>fields. cr_tool_choice (claudeRequestOf d payload) \<noteq> Some (JObj fields)) \<longrightarrow>
             op_tool_choice p = None))
     \<and> (?ft = [] \<longrightarrow> op_tool_choice p = None \<and> op_tools p = None)
     \<and> (?ft = []
          \<longleftrightarrow> \<not> supportsTools (capabilities (provider h))
               \<or> convertToolsToOpenAI d (claudeRequestOf d payload) = [])"
    by blast
qed

text \<open>
  A request that declares one tool and chooses the tool \<open>Read\<close>, through a handler for
  ollama whose health check has been made and an adapter that leaves the payload as it
  is: the chat request carries the tool and the function choice \<open>Read\<close>.
\<close>

theorem tool_choice_conversion_witness:
  "POST_chat ''http://localhost:11434/v1/chat/completions''
      (sentPayload
         (exampleDeps \<lparr> cr_max_tokens = Some (JNum 100), cr_temperature = Some (JNum 0),
                         cr_stream = Some (JBool True),
                         cr_tool_choice = Some (JObj [(''type'', JStr ''tool''),
                                                      (''name'', JStr ''Read'')]),
                         cr_tools = None \<rparr>
            [JObj [(''type'', JStr ''function'')]] (\<lambda>s. None) (\<lambda>v. NaN))
         ((LocalProviderHandler (ollamaProvider (\<lambda>v. None)) ''llama3'' 3000)
            \<lparr> healthChecked := True, isHealthy := True \<rparr>)
         (JObj []))
     \<in> set (issued []
         (snd (snd (handle
            (exampleDeps \<lparr> cr_max_tokens = Some (JNum 100), cr_temperature = Some (JNum 0),
                            cr_stream = Some (JBool True),
                            cr_tool_choice = Some (JObj [(''type'', JStr ''tool''),
                                                         (''name'', JStr ''Read'')]),
                            cr_tools = None \<rparr>
               [JObj [(''type'', JStr ''function'')]] (\<lambda>s. None) (\<lambda>v. NaN))
            (\<lambda>reqs q. Response 200 [])
            ((LocalProviderHandler (ollamaProvider (\<lambda>v. None)) ''llama3'' 3000)
               \<lparr> healthChecked := True, isHealthy := True \<rparr>)
            [] (JObj [])))))
   \<and> op_tools (sentPayload
         (exampleDeps \<lparr> cr_max_tokens = Some (JNum 100), cr_temperature = Some (JNum 0),
                         cr_stream = Some (JBool True),
                         cr_tool_choice = Some (JObj [(''type'', JStr ''tool''),
                                                      (''name'', JStr ''Read'')]),
                         cr_tools = None \<rparr>
            [JObj [(''type'', JStr ''function'')]] (\<lambda>s. None) (\<lambda>v. NaN))
         ((LocalProviderHandler (ollamaProvider (\<lambda>v. None)) ''llama3'' 3000)
            \<lparr> healthChecked := True, isHealthy := True \<rparr>)
         (JObj []))
       = Some [JObj [(''type'', JStr ''function'')]]
   \<and> op_tool_choice (sentPayload
         (exampleDeps \<lparr> cr_max_tokens = Some (JNum 100), cr_temperature = Some (JNum 0),
                         cr_stream = Some (JBool True),
                         cr_tool_choice = Some (JObj [(''type'', JStr ''tool''),
                                                      (''name'', JStr ''Read'')]),
                         cr_tools = None \<rparr>
            [JObj [(''type'', JStr ''function'')]] (\<lambda>s. None) (\<lambda>v. NaN))
         ((LocalProviderHandler (ollamaProvider (\<lambda>v. None)) ''llama3'' 3000)
            \<lparr> healthChecked := True, isHealthy := True \<rparr>)
         (JObj []))
       = Some (ToolChoiceFunction (JStr ''Read''))"
proof -
  let ?kvs = "[(''type'', JStr ''tool''), (''name'', JStr ''Read'')]"
  let ?cr = "\<lparr> cr_max_tokens = Some (JNum 100), cr_temperature = Some (JNum 0),
                cr_stream = Some (JBool True), cr_tool_choice = Some (JObj ?kvs),
                cr_tools = None \<rparr>"
  let ?d = "exampleDeps ?cr [JObj [(''type'', JStr ''function'')]] (\<lambda>s. None) (\<lambda>v. NaN)"
  let ?h = "(LocalProviderHandler (ollamaProvider (\<lambda>v. None)) ''llama3'' 3000)
           \<lparr> healthChecked := True, isHealthy := True \<rparr>"
  let ?net = "\<lambda>(reqs :: http_request list) (q :: http_request). Response 200 []"
  let ?u = "''http://localhost:11434/v1/chat/completions''"
  have hook: "sentPayload ?d ?h (JObj []) = builtPayload ?d ?h (JObj [])"
    by (simp add: sentPayload_def exampleDeps_def)
  have sent: "POST_chat ?u (sentPayload ?d ?h (JObj []))
      \<in> set (issued [] (snd (snd (handle ?d ?net ?h [] (JObj [])))))"
    by (simp add: handle_def forward_def sentPayload_def builtPayload_def claudeRequestOf_def
        exampleDeps_def LocalProviderHandler_def ollamaProvider_def ok_def issued_def Let_def)
  have cr: "claudeRequestOf ?d (JObj []) = ?cr"
    by (simp add: claudeRequestOf_def exampleDeps_def)
  have ft: "finalTools (provider ?h) (convertToolsToOpenAI ?d ?cr)
      = [JObj [(''type'', JStr ''function'')]]"
    by (simp add: finalTools_def exampleDeps_def LocalProviderHandler_def ollamaProvider_def)
  from tool_choice_conversion[of ?u "sentPayload ?d ?h (JObj [])" "[]" ?d ?net ?h "JObj []"
      ?kvs "JStr ''Read''"] sent hook cr ft
  have "op_tools (sentPayload ?d ?h (JObj [])) = Some [JObj [(''type'', JStr ''function'')]]
      \<and> op_tool_choice (sentPayload ?d ?h (JObj [])) = Some (ToolChoiceFunction (JStr ''Read''))"
    by simp
  with sent show ?thesis by blast
qed

text \<open>
  Three requests that declare one tool, through handlers whose health check has been
  made. With the \<open>tool_choice\<close> \<open>"auto"\<close>, a bare string, the chat request to ollama
  carries the tool and no \<open>tool_choice\<close>. With the \<open>tool_choice\<close>
  \<open>{type: "auto"}\<close>, it carries the bare string \<open>auto\<close>, not the object. And with
  mlx, which lacks tool support, and an adapter whose hook sets \<open>tool_choice\<close> to
  \<open>auto\<close>, the chat request carries no tools and the \<open>tool_choice\<close> \<open>auto\<close>.
\<close>

theorem tool_choice_counterexample:
  "issued []
     (snd (snd (handle
        (exampleDeps \<lparr> cr_max_tokens = Some (JNum 100), cr_temperature = Some (JNum 0),
                        cr_stream = Some (JBool True), cr_tool_choice = Some (JStr ''auto''),
                        cr_tools = None \<rparr>
           [JObj [(''type'', JStr ''function'')]] (\<lambda>s. None) (\<lambda>v. NaN))
        (\<lambda>reqs q. Response 200 [])
        ((LocalProviderHandler (ollamaProvider (\<lambda>v. None)) ''llama3'' 3000)
           \<lparr> healthChecked := True, isHealthy := True \<rparr>)
        [] (JObj []))))
   = [POST_chat ''http://localhost:11434/v1/chat/completions''
        \<lparr> op_model = ''llama3'', op_messages = [], op_temperature = JNum 0, op_stream = True,
          op_max_tokens = Some (JNum 100), op_tools = Some [JObj [(''type'', JStr ''function'')]],
          op_stream_options = Some True, op_tool_choice = None \<rparr>]
   \<and> issued []
     (snd (snd (handle
        (exampleDeps \<lparr> cr_max_tokens = Some (JNum 100), cr_temperature = Some (JNum 0),
                        cr_stream = Some (JBool True),
                        cr_tool_choice = Some (JObj [(''type'', JStr ''auto'')]),
                        cr_tools = None \<rparr>
           [JObj [(''type'', JStr ''function'')]] (\<lambda>s. None) (\<lambda>v. NaN))
        (\<lambda>reqs q. Response 200 [])
        ((LocalProviderHandler (ollamaProvider (\<lambda>v. None)) ''llama3'' 3000)
           \<lparr> healthChecked := True, isHealthy := True \<rparr>)
        [] (JObj []))))
   = [POST_chat ''http://localhost:11434/v1/chat/completions''
        \<lparr> op_model = ''llama3'', op_messages = [], op_temperature = JNum 0, op_stream = True,
          op_max_tokens = Some (JNum 100), op_tools = Some [JObj [(''type'', JStr ''function'')]],
          op_stream_options = Some True, op_tool_choice = Some (ToolChoiceString ''auto'') \<rparr>]
   \<and> issued []
     (snd (snd (handle
        ((exampleDeps \<lparr> cr_max_tokens = Some (JNum 100), cr_temperature = Some (JNum 0),
                         cr_stream = Some (JBool True),
                         cr_tool_choice = Some (JObj [(''type'', JStr ''auto'')]),
                         cr_tools = None \<rparr>
            [JObj [(''type'', JStr ''function'')]] (\<lambda>s. None) (\<lambda>v. NaN))
           \<lparr> prepareRequest :=
               (\<lambda>q claudeRequest. q\<lparr> op_tool_choice := Some (ToolChoiceString ''auto'') \<rparr>) \<rparr>)
        (\<lambda>reqs q. Response 200 [])
        ((LocalProviderHandler (mlxProvider (\<lambda>v. None)) ''qwen'' 3000)
           \<lparr> healthChecked := True, isHealthy := True \<rparr>)
        [] (JObj []))))
   = [POST_chat ''http://127.0.0.1:8080/v1/chat/completions''
        \<lparr> op_model = ''qwen'', op_messages = [], op_temperature = JNum 0, op_stream = True,
          op_max_tokens = Some (JNum 100), op_tools = None,
          op_stream_options = Some True, op_tool_choice = Some (ToolChoiceString ''auto'') \<rparr>]"
  by (simp add: handle_def forward_def openAIPayload_def finalTools_def exampleDeps_def
      choiceType_def choiceName_def
      LocalProviderHandler_def ollamaProvider_def mlxProvider_def ok_def issued_def Let_def)

subsection \<open>Error mapping\<close>





















subsection \<open>Capability gating\<close>




subsection \<open>Context window\<close>






lemma ctxFromParams_null:
  "map_of kvs ''parameters'' = Some JNull \<longrightarrow> ctxFromParams (JObj kvs) = Inr None"
  by (simp add: ctxFromParams_def)








lemma ctxFromParams_string:
  "map_of kvs ''parameters'' = Some (JStr params) \<longrightarrow>
     ctxFromParams (JObj kvs) = Inr (matchNumCtx params)"
  by (simp add: ctxFromParams_def)

lemma ctxFromParams_absent:
  "map_of kvs ''parameters'' = None \<longrightarrow> ctxFromParams (JObj kvs) = Inr None"
  by (simp add: ctxFromParams_def)

lemma digit_not_space: "isDigit c \<Longrightarrow> \<not> isSpace c"
  by (auto simp: isDigit_def isSpace_def)

lemma takeWhile_run:
  "\<forall>x \<in> set xs. P x \<Longrightarrow> ys = [] \<or> \<not> P (hd ys) \<Longrightarrow> takeWhile P (xs @ ys) = xs"
  by (induction xs) (auto simp: takeWhile_eq_Nil_iff)

lemma dropWhile_run:
  "\<forall>x \<in> set xs. P x \<Longrightarrow> ys = [] \<or> \<not> P (hd ys) \<Longrightarrow> dropWhile P (xs @ ys) = ys"
  by (induction xs) (auto simp: dropWhile_eq_self_iff)

text \<open>
  The regular expression matches at the start of a string that consists of
  \<open>num_ctx\<close>, white space, digits and a rest that does not go on with a digit; the
  capture is the digits.
\<close>

lemma matchNumCtx_at_start:
  assumes ws: "ws \<noteq> []" "\<forall>c \<in> set ws. isSpace c"
    and ds: "ds \<noteq> []" "\<forall>c \<in> set ds. isDigit c"
    and rest: "rest = [] \<or> \<not> isDigit (hd rest)"
  shows "matchNumCtx (''num_ctx'' @ ws @ ds @ rest) = Some ds"
proof -
  from ds have hd: "\<not> isSpace (hd (ds @ rest))"
    by (cases ds) (auto simp: digit_not_space)
  from ds(1) have ne: "ds @ rest \<noteq> []" by simp
  have tw: "takeWhile isSpace (ws @ ds @ rest) = ws"
    using takeWhile_run[of ws isSpace "ds @ rest"] ws(2) hd by simp
  have dw: "dropWhile isSpace (ws @ ds @ rest) = ds @ rest"
    using dropWhile_run[of ws isSpace "ds @ rest"] ws(2) hd by simp
  have td: "takeWhile isDigit (ds @ rest) = ds"
    using takeWhile_run[of ds isDigit rest] ds(2) rest by simp
  have "matchNumCtxHere (''num_ctx'' @ ws @ ds @ rest) = Some ds"
    using tw dw td ws(1) ds(1)
    by (simp add: matchNumCtxHere_def startsWith_def slice_def Let_def)
  then show ?thesis by simp
qed








subsection \<open>Token status file\<close>

lemma leftPct_range:
  "ctx \<noteq> PosInfinity \<Longrightarrow> \<exists>p. leftPct fl ctx tot = Num p \<and> 0 \<le> p \<and> p \<le> 100"
  by (cases ctx) (simp_all add: leftPct_def)

text \<open>
  Every call of \<open>writeTokenFile\<close> adds its arguments to the session totals and writes,
  to the file \<open>claudish-tokens-<port>.json\<close> of the temporary directory, the object
  with exactly the fields \<open>input_tokens\<close>, \<open>output_tokens\<close>, \<open>total_tokens\<close>,
  \<open>total_cost\<close>, \<open>context_window\<close>, \<open>context_left_percent\<close> and \<open>updated_at\<close>, in
  which \<open>total_tokens\<close> is the sum of the session's input and output tokens and
  \<open>total_cost\<close> is 0. Unless the context window is \<open>Infinity\<close>,
  \<open>context_left_percent\<close> is an integer between 0 and 100, however the arithmetic of
  doubles rounds.
\<close>

lemma token_file_contents:
  "sessionInputTokens (fst (writeTokenFile fl tmpdir now h input output))
      = sessionInputTokens h + input
   \<and> sessionOutputTokens (fst (writeTokenFile fl tmpdir now h input output))
      = sessionOutputTokens h + output
   \<and> fw_dir (snd (writeTokenFile fl tmpdir now h input output)) = tmpdir
   \<and> fw_name (snd (writeTokenFile fl tmpdir now h input output))
      = ''claudish-tokens-'' @ decimal (port h) @ ''.json''
   \<and> fw_data (snd (writeTokenFile fl tmpdir now h input output))
      = JObj
          [ (''input_tokens'', JNum (of_int (sessionInputTokens h + input))),
            (''output_tokens'', JNum (of_int (sessionOutputTokens h + output))),
            (''total_tokens'',
               JNum (of_int ((sessionInputTokens h + input) + (sessionOutputTokens h + output)))),
            (''total_cost'', JNum 0),
            (''context_window'', jsonOfNum (contextWindow h)),
            (''context_left_percent'',
               jsonOfNum (leftPct fl (contextWindow h)
                  ((sessionInputTokens h + input) + (sessionOutputTokens h + output)))),
            (''updated_at'', JNum (of_int now)) ]
   \<and> (contextWindow h \<noteq> PosInfinity \<longrightarrow>
        (\<exists>p. jsonOfNum (leftPct fl (contextWindow h)
                  ((sessionInputTokens h + input) + (sessionOutputTokens h + output)))
               = JNum (of_int p) \<and> 0 \<le> p \<and> p \<le> 100))"
proof -
  have "contextWindow h \<noteq> PosInfinity \<longrightarrow>
        (\<exists>p. jsonOfNum (leftPct fl (contextWindow h)
                  ((sessionInputTokens h + input) + (sessionOutputTokens h + output)))
               = JNum (of_int p) \<and> 0 \<le> p \<and> p \<le> 100)"
    using leftPct_range[of "contextWindow h" fl
        "(sessionInputTokens h + input) + (sessionOutputTokens h + output)"]
    by auto
  then show ?thesis
    by (simp add: writeTokenFile_def Let_def)
qed

text \<open>
  A fresh handler on port 3000 with the default context window of 8192, after a
  response of 1000 input and 200 output tokens: 6992 / 8192 and its hundredfold,
  85.3515625, are doubles, so that no operation rounds, and 85 percent of the context
  are left.
\<close>

lemma token_file_contents_example:
  "snd (writeTokenFile (\<lambda>x. x) ''/tmp'' 1700000000000
          (LocalProviderHandler (ollamaProvider (\<lambda>v. None)) ''llama3'' 3000) 1000 200)
     = \<lparr> fw_dir = ''/tmp'', fw_name = ''claudish-tokens-3000.json'',
         fw_data = JObj
          [ (''input_tokens'', JNum 1000),
            (''output_tokens'', JNum 200),
            (''total_tokens'', JNum 1200),
            (''total_cost'', JNum 0),
            (''context_window'', JNum 8192),
            (''context_left_percent'', JNum 85),
            (''updated_at'', JNum 1700000000000) ] \<rparr>"
proof -
  have r: "Math_round ((of_int (8192 - 1200) / of_int 8192) * 100) = 85"
    unfolding Math_round_def by (rule floor_unique) simp_all
  have l: "leftPct (\<lambda>x. x) (Num 8192) 1200 = Num 85"
    using r by (simp add: leftPct_def)
  have d: "decimal 3000 = ''3000''"
    by (simp add: decimal.simps)
  show ?thesis
    using l d by (simp add: writeTokenFile_def LocalProviderHandler_def Let_def)
qed

text \<open>
  C9. The token-status file is to hold a \<open>context_left_percent\<close> between 0 and 100.
  Ollama answers \<open>/api/show\<close> with \<open>{"parameters":"num_ctx 99...9"}\<close>, a run of 400
  nines, of which \<open>parseInt\<close> is \<open>Infinity\<close>: the context window becomes
  \<open>Infinity\<close>, and after a response of 1000 input and 200 output tokens
  \<open>writeTokenFile\<close> writes \<open>null\<close> for \<open>context_window\<close> and for
  \<open>context_left_percent\<close>. The clamp to 0 and 100 and the test for a positive context
  window do not cover this case. No arithmetic is rounded on the way.
\<close>

theorem token_file_infinite_context_window:
  "contextWindow (fst (fetchContextWindow
      (\<lambda>s. if s = ''{\"parameters\":\"num_ctx '' @ replicate 400 (CHR ''9'') @ ''\"}''
           then Some (JObj [(''parameters'', JStr (''num_ctx '' @ replicate 400 (CHR ''9'')))])
           else None)
      (\<lambda>v. if v = JStr (replicate 400 (CHR ''9'')) then PosInfinity else NaN)
      (\<lambda>reqs q. Response 200 (''{\"parameters\":\"num_ctx '' @ replicate 400 (CHR ''9'') @ ''\"}''))
      (LocalProviderHandler (ollamaProvider (\<lambda>v. None)) ''llama3'' 3000) [])) = PosInfinity
   \<and> fw_data (snd (writeTokenFile (\<lambda>x. x) ''/tmp'' 1700000000000
      (fst (fetchContextWindow
         (\<lambda>s. if s = ''{\"parameters\":\"num_ctx '' @ replicate 400 (CHR ''9'') @ ''\"}''
              then Some (JObj [(''parameters'', JStr (''num_ctx '' @ replicate 400 (CHR ''9'')))])
              else None)
         (\<lambda>v. if v = JStr (replicate 400 (CHR ''9'')) then PosInfinity else NaN)
         (\<lambda>reqs q. Response 200 (''{\"parameters\":\"num_ctx '' @ replicate 400 (CHR ''9'') @ ''\"}''))
         (LocalProviderHandler (ollamaProvider (\<lambda>v. None)) ''llama3'' 3000) []))
      1000 200))
     = JObj
          [ (''input_tokens'', JNum 1000),
            (''output_tokens'', JNum 200),
            (''total_tokens'', JNum 1200),
            (''total_cost'', JNum 0),
            (''context_window'', JNull),
            (''context_left_percent'', JNull),
            (''updated_at'', JNum 1700000000000) ]"
proof -
  let ?nines = "replicate 400 (CHR ''9'')"
  let ?body = "''{\"parameters\":\"num_ctx '' @ ?nines @ ''\"}''"
  let ?parse = "\<lambda>s. if s = ?body
      then Some (JObj [(''parameters'', JStr (''num_ctx '' @ ?nines))]) else None"
  let ?pi = "\<lambda>v. if v = JStr ?nines then PosInfinity else NaN"
  let ?net = "\<lambda>(reqs :: http_request list) (q :: http_request). Response 200 ?body"
  let ?h = "LocalProviderHandler (ollamaProvider (\<lambda>v. None)) ''llama3'' 3000"
  have nines: "?nines \<noteq> []" "\<forall>c \<in> set ?nines. isDigit c"
    by (simp_all add: isDigit_def)
  have "matchNumCtx (''num_ctx'' @ '' '' @ ?nines @ []) = Some ?nines"
    by (rule matchNumCtx_at_start) (use nines in \<open>simp_all add: isSpace_def\<close>)
  then have m: "matchNumCtx (''num_ctx '' @ ?nines) = Some ?nines"
    by simp
  have c: "contextFromShow ?parse ?pi ?body = Inr PosInfinity"
    using m by (simp add: contextFromShow_def ctxFromInfo_def ctxFromParams_def)
  have f: "fetchContextWindow ?parse ?pi ?net ?h []
      = (?h\<lparr> contextWindow := PosInfinity \<rparr>,
         [POST_show ''http://localhost:11434/api/show'' ''llama3''])"
    unfolding fetchContextWindow_def Let_def
    using c by (simp add: LocalProviderHandler_def ollamaProvider_def ok_def)
  show ?thesis
    unfolding f
    by (simp add: writeTokenFile_def leftPct_def LocalProviderHandler_def Let_def)
qed

subsection \<open>Health gate\<close>




















end
